theory Spec2Isabelle
  imports Complex_Main
begin

section \<open>Numbers\<close>

text \<open>
  The engine of \<^verbatim>\<open>model.js\<close> computes on JavaScript numbers. They are embedded as
  real numbers: arithmetic is exact, and the special values NaN and Infinity do not occur.
  The loop counter \<^verbatim>\<open>year\<close> (1, 2, 3, ...) is a natural number, read as a real where the
  source compares or multiplies it.

  \<^verbatim>\<open>x || d\<close> on a number \<open>x\<close> yields \<open>d\<close> when \<open>x\<close> is zero (or NaN) and \<open>x\<close> otherwise.
\<close>

definition js_or :: "real \<Rightarrow> real \<Rightarrow> real" where
  "js_or x d = (if x = 0 then d else x)"

text \<open>
  \<^verbatim>\<open>Math.pow(x, y)\<close>: an integral exponent is repeated multiplication (or its inverse), any
  other exponent is the real power of a positive base. Where JavaScript returns NaN or
  Infinity (zero base with a negative exponent, negative base with a fractional exponent) the
  embedding has some real number.
\<close>

definition Math_pow :: "real \<Rightarrow> real \<Rightarrow> real" where
  "Math_pow x y = (if of_int \<lfloor>y\<rfloor> = y then x powi \<lfloor>y\<rfloor> else x powr y)"

section \<open>Helpers of the engine\<close>

text \<open>\<^verbatim>\<open>function pmt(rate, nper, pv)\<close>, lines 8-16.\<close>

definition pmt :: "real \<Rightarrow> real \<Rightarrow> real \<Rightarrow> real" where
  "pmt rate nper pv =
     (if \<bar>rate\<bar> < 1 / 10 ^ 9 then (if nper > 0 then pv / nper else 0)
      else (pv * rate) / (1 - Math_pow (1 + rate) (- nper)))"

text \<open>\<^verbatim>\<open>function getAfaRate(afaModel, year, lifetimeYears)\<close>, lines 21-47.\<close>

definition getAfaRate :: "string \<Rightarrow> nat \<Rightarrow> real \<Rightarrow> real" where
  "getAfaRate afaModel year lifetimeYears =
     (let y = real year in
      if afaModel = ''Linear 2%'' \<or> afaModel = ''Linear 2% p.a.'' then
        (if y \<le> 50 then 0.02 else 0.0)
      else if afaModel = ''Linear 3%'' \<or> afaModel = ''Linear 3% p.a.'' then
        (if y \<le> 33 then 0.03 else 0.0)
      else if afaModel = ''Degressive 5% + Linear 2%'' then
        (if y \<le> 6 then 0.05 else 0.02)
      else if afaModel = ''Degressive 5% + Linear 3%'' then
        (if y \<le> 6 then 0.05 else 0.03)
      else if afaModel = ''Linear 1/Restnutzungsdauer'' \<or> afaModel = ''Linear 1 / remaining life'' then
        (if y \<le> lifetimeYears then 1 / lifetimeYears else 0.0)
      else 0.02)"

section \<open>Inputs\<close>

text \<open>
  The \<^verbatim>\<open>inputs\<close> object as the caller passes it: every field may be absent (or
  \<^verbatim>\<open>undefined\<close>), which is \<open>None\<close>. For \<^verbatim>\<open>saleYear\<close>, \<open>None\<close> is also \<^verbatim>\<open>null\<close>, the
  value its default gives it.
\<close>

record inputs =
  startYear_opt :: "real option"
  buildingValue_opt :: "real option"
  landValue_opt :: "real option"
  grEStRate_opt :: "real option"
  maklerRate_opt :: "real option"
  grundbuchRate_opt :: "real option"
  notaryRate_opt :: "real option"
  companyCost_opt :: "real option"
  fittingUp_opt :: "real option"
  initialRepairs_opt :: "real option"
  buildingLossRate_opt :: "real option"
  landGrowthRate_opt :: "real option"
  constructionCostGrowth_opt :: "real option"
  annualMaintenance_opt :: "real option"
  maintenanceGrowth_opt :: "real option"
  sqm_opt :: "real option"
  monthlyRent_opt :: "real option"
  vacancyRate_opt :: "real option"
  rentGrowth_opt :: "real option"
  incomeTaxRate_opt :: "real option"
  equity_opt :: "real option"
  loanTermYears1_opt :: "real option"
  fixRateYears1_opt :: "real option"
  interestRate1_opt :: "real option"
  discountRate_opt :: "real option"
  loanTermYears2_opt :: "real option"
  interestRate2_opt :: "real option"
  sellingCostRate_opt :: "real option"
  saleMode_opt :: "string option"
  saleYear_opt :: "real option"
  investmentHorizonYears_opt :: "real option"
  altReturnBeforeTax_opt :: "real option"
  altTaxRate_opt :: "real option"
  afaModel_opt :: "string option"
  buildingLifetimeYears_opt :: "real option"

text \<open>The local constants that the destructuring of lines 67-129 binds.\<close>

record unpacked =
  startYear :: real
  buildingValue :: real
  landValue :: real
  grEStRate :: real
  maklerRate :: real
  grundbuchRate :: real
  notaryRate :: real
  companyCost :: real
  fittingUp :: real
  initialRepairs :: real
  buildingLossRate :: real
  landGrowthRate :: real
  constructionCostGrowth :: real
  annualMaintenance :: real
  maintenanceGrowth :: real
  sqm :: real
  monthlyRent :: real
  vacancyRate :: real
  rentGrowth :: real
  incomeTaxRate :: real
  equity :: real
  loanTermYears1 :: real
  fixRateYears1 :: real
  interestRate1 :: real
  discountRate :: real
  loanTermYears2 :: real
  interestRate2 :: real
  sellingCostRate :: real
  saleMode :: string
  saleYear :: "real option"
  investmentHorizonYears :: real
  altReturnBeforeTax :: real
  altTaxRate :: real
  afaModel :: string
  buildingLifetimeYears :: real

text \<open>A destructuring default: the default stands in for an absent field.\<close>

definition dflt :: "'a option \<Rightarrow> 'a \<Rightarrow> 'a" where
  "dflt v d = (case v of None \<Rightarrow> d | Some x \<Rightarrow> x)"

text \<open>
  Lines 67-129. \<open>now\<close> is what \<^verbatim>\<open>new Date().getFullYear()\<close> returns at the call: the
  only place where the engine reads the clock.
\<close>

definition unpack :: "real \<Rightarrow> inputs \<Rightarrow> unpacked" where
  "unpack now i =
     \<lparr> startYear = dflt (startYear_opt i) now,
       buildingValue = dflt (buildingValue_opt i) 0,
       landValue = dflt (landValue_opt i) 0,
       grEStRate = dflt (grEStRate_opt i) 0,
       maklerRate = dflt (maklerRate_opt i) 0,
       grundbuchRate = dflt (grundbuchRate_opt i) 0,
       notaryRate = dflt (notaryRate_opt i) 0,
       companyCost = dflt (companyCost_opt i) 0,
       fittingUp = dflt (fittingUp_opt i) 0,
       initialRepairs = dflt (initialRepairs_opt i) 0,
       buildingLossRate = dflt (buildingLossRate_opt i) 0,
       landGrowthRate = dflt (landGrowthRate_opt i) 0,
       constructionCostGrowth = dflt (constructionCostGrowth_opt i) 0,
       annualMaintenance = dflt (annualMaintenance_opt i) 0,
       maintenanceGrowth = dflt (maintenanceGrowth_opt i) 0,
       sqm = dflt (sqm_opt i) 0,
       monthlyRent = dflt (monthlyRent_opt i) 0,
       vacancyRate = dflt (vacancyRate_opt i) 0,
       rentGrowth = dflt (rentGrowth_opt i) 0,
       incomeTaxRate = dflt (incomeTaxRate_opt i) 0,
       equity = dflt (equity_opt i) 0,
       loanTermYears1 = dflt (loanTermYears1_opt i) 0,
       fixRateYears1 = dflt (fixRateYears1_opt i) 0,
       interestRate1 = dflt (interestRate1_opt i) 0,
       discountRate = dflt (discountRate_opt i) 0,
       loanTermYears2 = dflt (loanTermYears2_opt i) 0,
       interestRate2 = dflt (interestRate2_opt i) (dflt (interestRate1_opt i) 0),
       sellingCostRate = dflt (sellingCostRate_opt i) 0,
       saleMode = dflt (saleMode_opt i) ''hold'',
       saleYear = saleYear_opt i,
       investmentHorizonYears = dflt (investmentHorizonYears_opt i) 30,
       altReturnBeforeTax = dflt (altReturnBeforeTax_opt i) 0,
       altTaxRate = dflt (altTaxRate_opt i) (dflt (incomeTaxRate_opt i) 0),
       afaModel = dflt (afaModel_opt i) ''Linear 2%'',
       buildingLifetimeYears = dflt (buildingLifetimeYears_opt i) 50 \<rparr>"

section \<open>Derived constants\<close>

text \<open>Lines 131-165 and 183-184, each under the name of its \<^verbatim>\<open>const\<close>.\<close>

definition horizonYears :: "unpacked \<Rightarrow> real" where
  "horizonYears p = max 1 (js_or (investmentHorizonYears p) 1)"

definition purchasePrice :: "unpacked \<Rightarrow> real" where
  "purchasePrice p = buildingValue p + landValue p"

definition sideCostRate :: "unpacked \<Rightarrow> real" where
  "sideCostRate p =
     js_or (grEStRate p) 0 + js_or (maklerRate p) 0 + js_or (grundbuchRate p) 0
       + js_or (notaryRate p) 0"

definition sideCostsVariable :: "unpacked \<Rightarrow> real" where
  "sideCostsVariable p = purchasePrice p * sideCostRate p"

definition sideCostsTotal :: "unpacked \<Rightarrow> real" where
  "sideCostsTotal p = sideCostsVariable p + js_or (companyCost p) 0"

definition totalInvestment :: "unpacked \<Rightarrow> real" where
  "totalInvestment p =
     purchasePrice p + js_or (fittingUp p) 0 + js_or (initialRepairs p) 0 + sideCostsTotal p"

definition financingNeed :: "unpacked \<Rightarrow> real" where
  "financingNeed p = totalInvestment p - equity p"

definition payoutFactor :: "unpacked \<Rightarrow> real" where
  "payoutFactor p = 1 - js_or (discountRate p) 0"

definition loanAmount1 :: "unpacked \<Rightarrow> real" where
  "loanAmount1 p =
     (if \<bar>payoutFactor p\<bar> > 1 / 10 ^ 9 then financingNeed p / payoutFactor p
      else financingNeed p)"

definition disagio :: "unpacked \<Rightarrow> real" where
  "disagio p = loanAmount1 p - financingNeed p"

definition buildingShare :: "unpacked \<Rightarrow> real" where
  "buildingShare p = (if purchasePrice p > 0 then buildingValue p / purchasePrice p else 0)"

definition afaBasis :: "unpacked \<Rightarrow> real" where
  "afaBasis p = buildingValue p + js_or (fittingUp p) 0 + sideCostsVariable p * buildingShare p"

definition r1 :: "unpacked \<Rightarrow> real" where
  "r1 p = js_or (interestRate1 p) 0"

definition r2 :: "unpacked \<Rightarrow> real" where
  "r2 p = js_or (interestRate2 p) 0"

definition n1 :: "unpacked \<Rightarrow> real" where
  "n1 p = js_or (loanTermYears1 p) 0"

definition n2 :: "unpacked \<Rightarrow> real" where
  "n2 p = js_or (loanTermYears2 p) 0"

definition annuity1 :: "unpacked \<Rightarrow> real" where
  "annuity1 p = (if n1 p > 0 then pmt (r1 p) (n1 p) (loanAmount1 p) else 0)"

definition purchaseCostBasis :: "unpacked \<Rightarrow> real" where
  "purchaseCostBasis p =
     purchasePrice p + js_or (fittingUp p) 0 + sideCostsVariable p * buildingShare p"

section \<open>The yearly loop\<close>

text \<open>The variables that the loop of lines 186-335 updates (the \<^verbatim>\<open>let\<close>s of lines 167-180).\<close>

record vars =
  remainingDebt_v :: real
  cumPrincipal_v :: real
  annuity2_v :: real
  secondLoanStarted_v :: bool
  landVal_v :: real
  buildingVal_v :: real
  propertyVal_v :: real
  cumulativeCF_v :: real
  saleHappened_v :: bool

text \<open>The object pushed onto \<^verbatim>\<open>years\<close> (lines 316-334).\<close>

record YearRecord =
  yearIndex :: nat
  calendarYear :: real
  remainingDebt :: real
  interestPaid :: real
  principalPaid :: real
  grossRent :: real
  netRent :: real
  maintenance :: real
  depreciation :: real
  taxable :: real
  taxCash :: real
  cashBeforeTax :: real
  cashAfterTax :: real
  cumulativeCF :: real
  propertyValue :: real
  wealthFromCFAndLoan :: real
  equityPosition :: real

definition initVars :: "unpacked \<Rightarrow> vars" where
  "initVars p =
     \<lparr> remainingDebt_v = loanAmount1 p,
       cumPrincipal_v = 0,
       annuity2_v = 0,
       secondLoanStarted_v = False,
       landVal_v = landValue p,
       buildingVal_v = buildingValue p + js_or (fittingUp p) 0,
       propertyVal_v = landValue p + (buildingValue p + js_or (fittingUp p) 0),
       cumulativeCF_v = 0,
       saleHappened_v = False \<rparr>"

text \<open>Lines 194-199.\<close>

definition withinLoan1 :: "unpacked \<Rightarrow> nat \<Rightarrow> vars \<Rightarrow> bool" where
  "withinLoan1 p year s = (real year \<le> n1 p \<and> remainingDebt_v s > 1 / 10 ^ 6)"

definition withinLoan2 :: "unpacked \<Rightarrow> nat \<Rightarrow> vars \<Rightarrow> bool" where
  "withinLoan2 p year s =
     (\<not> withinLoan1 p year s \<and> n2 p > 0 \<and> real year \<le> n1 p + n2 p
      \<and> remainingDebt_v s > 1 / 10 ^ 6)"

text \<open>
  Lines 189-224, the loan phase of one year: the updated variables, then
  \<^verbatim>\<open>interestPaid\<close>, \<^verbatim>\<open>principalPaid\<close> and \<^verbatim>\<open>annualPayment\<close>.
\<close>

definition loanStep :: "unpacked \<Rightarrow> nat \<Rightarrow> vars \<Rightarrow> vars \<times> real \<times> real \<times> real" where
  "loanStep p year s =
     (if withinLoan1 p year s then
        (let annualPayment = annuity1 p;
             interestPaid = remainingDebt_v s * r1 p;
             principalPaid = min (annualPayment - interestPaid) (remainingDebt_v s)
         in (s\<lparr> remainingDebt_v := max (remainingDebt_v s - principalPaid) 0,
                cumPrincipal_v := cumPrincipal_v s + principalPaid \<rparr>,
             interestPaid, principalPaid, annualPayment))
      else if withinLoan2 p year s then
        (let s1 = (if \<not> secondLoanStarted_v s
                   then s\<lparr> annuity2_v := pmt (r2 p) (n2 p) (remainingDebt_v s),
                           secondLoanStarted_v := True \<rparr>
                   else s);
             annualPayment = annuity2_v s1;
             interestPaid = remainingDebt_v s1 * r2 p;
             principalPaid = min (annualPayment - interestPaid) (remainingDebt_v s1)
         in (s1\<lparr> remainingDebt_v := max (remainingDebt_v s1 - principalPaid) 0,
                 cumPrincipal_v := cumPrincipal_v s1 + principalPaid \<rparr>,
             interestPaid, principalPaid, annualPayment))
      else (s, 0, 0, 0))"

text \<open>The condition of the sale, lines 278-283.\<close>

definition saleFires :: "unpacked \<Rightarrow> nat \<Rightarrow> vars \<Rightarrow> bool" where
  "saleFires p year s =
     (\<not> saleHappened_v s \<and> saleMode p = ''sell'' \<and> saleYear p \<noteq> None
      \<and> Some (real year) = saleYear p)"

text \<open>
  The capital-gains tax of lines 291-294; \<^verbatim>\<open>saleYear\<close> is read only where the sale fires,
  so it is a number there.
\<close>

definition cgtOf :: "unpacked \<Rightarrow> real \<Rightarrow> real" where
  "cgtOf p capitalGain =
     (if the (saleYear p) \<le> 10 \<and> capitalGain > 0 then capitalGain * incomeTaxRate p else 0)"

text \<open>The body of the loop, lines 187-334: the updated variables and the record pushed.\<close>

definition yearBody :: "unpacked \<Rightarrow> nat \<Rightarrow> vars \<Rightarrow> vars \<times> YearRecord" where
  "yearBody p year s =
     (let calendarYear = startYear p + real year - 1;
          (s1, interestPaid, principalPaid, annualPayment) = loanStep p year s;
          grossRent = monthlyRent p * 12 * Math_pow (1 + rentGrowth p) (max (real year - 1) 0);
          netRent = grossRent * (1 - vacancyRate p);
          maintenance =
            (if year = 1 then - (annualMaintenance p + initialRepairs p)
             else - annualMaintenance p * Math_pow (1 + maintenanceGrowth p) (real year - 1));
          afaRate = getAfaRate (afaModel p) year (buildingLifetimeYears p);
          depreciation = - afaBasis p * afaRate;
          interestExpense = - interestPaid;
          principalFlow = - principalPaid;
          taxable0 = netRent + maintenance + interestExpense + depreciation;
          taxable =
            (if year = 1 \<and> \<bar>disagio p\<bar> > 1 / 10 ^ 6 then taxable0 + - disagio p else taxable0);
          taxCash = - incomeTaxRate p * taxable;
          cashBeforeTax = netRent + maintenance + interestExpense + principalFlow;
          cashAfterTax = cashBeforeTax + taxCash;
          landVal = landVal_v s1 * (1 + landGrowthRate p);
          buildingVal = buildingVal_v s1 * (1 - buildingLossRate p + constructionCostGrowth p);
          propertyVal = landVal + buildingVal;
          cumulativeCF = cumulativeCF_v s1 + cashAfterTax;
          wealthFromCFAndLoan = cumulativeCF + cumPrincipal_v s1;
          equityPosition = propertyVal + wealthFromCFAndLoan - totalInvestment p;
          s2 = s1\<lparr> landVal_v := landVal, buildingVal_v := buildingVal,
                   propertyVal_v := propertyVal, cumulativeCF_v := cumulativeCF \<rparr>
      in if saleFires p year s2 then
           (let saleGross = propertyVal * (1 - sellingCostRate p);
                capitalGain = saleGross - purchaseCostBasis p;
                cgt = cgtOf p capitalGain;
                repayDebt = remainingDebt_v s2;
                saleNetCF = saleGross - repayDebt - cgt;
                cashAfterTax' = cashAfterTax + saleNetCF;
                cumulativeCF' = cumulativeCF + saleNetCF;
                wealthFromCFAndLoan' = cumulativeCF' + cumPrincipal_v s2;
                equityPosition' = wealthFromCFAndLoan' - totalInvestment p
            in (s2\<lparr> remainingDebt_v := 0, cumulativeCF_v := cumulativeCF',
                     propertyVal_v := 0, saleHappened_v := True \<rparr>,
                \<lparr> yearIndex = year, calendarYear = calendarYear, remainingDebt = 0,
                  interestPaid = interestPaid, principalPaid = principalPaid,
                  grossRent = grossRent, netRent = netRent, maintenance = maintenance,
                  depreciation = depreciation, taxable = taxable, taxCash = taxCash,
                  cashBeforeTax = cashBeforeTax, cashAfterTax = cashAfterTax',
                  cumulativeCF = cumulativeCF', propertyValue = 0,
                  wealthFromCFAndLoan = wealthFromCFAndLoan',
                  equityPosition = equityPosition' \<rparr>))
         else
           (s2,
            \<lparr> yearIndex = year, calendarYear = calendarYear,
              remainingDebt = remainingDebt_v s2,
              interestPaid = interestPaid, principalPaid = principalPaid,
              grossRent = grossRent, netRent = netRent, maintenance = maintenance,
              depreciation = depreciation, taxable = taxable, taxCash = taxCash,
              cashBeforeTax = cashBeforeTax, cashAfterTax = cashAfterTax,
              cumulativeCF = cumulativeCF, propertyValue = propertyVal,
              wealthFromCFAndLoan = wealthFromCFAndLoan,
              equityPosition = equityPosition \<rparr>))"

text \<open>
  \<^verbatim>\<open>for (let year = 1; year <= horizonYears; year++)\<close>: the records pushed from \<open>year\<close> on.
\<close>

function yearLoop :: "unpacked \<Rightarrow> nat \<Rightarrow> vars \<Rightarrow> YearRecord list" where
  "yearLoop p year s =
     (if real year \<le> horizonYears p
      then (case yearBody p year s of (s', r) \<Rightarrow> r # yearLoop p (Suc year) s')
      else [])"
  by pat_completeness auto
termination
proof (relation "measure (\<lambda>(p, year, s). nat \<lfloor>horizonYears p\<rfloor> + 1 - year)")
  show "wf (measure (\<lambda>(p, year, s). nat \<lfloor>horizonYears p\<rfloor> + 1 - year))"
    by simp
next
  fix p :: unpacked and year :: nat and s :: vars and x :: "vars \<times> YearRecord"
    and s' :: vars and r :: YearRecord
  assume le: "real year \<le> horizonYears p"
  then have "year \<le> nat \<lfloor>horizonYears p\<rfloor>"
    by (simp add: le_nat_floor)
  then show "((p, Suc year, s'), (p, year, s))
      \<in> measure (\<lambda>(p, year, s). nat \<lfloor>horizonYears p\<rfloor> + 1 - year)"
    by simp
qed

declare yearLoop.simps [simp del]

section \<open>The result\<close>

record Meta =
  meta_startYear :: real
  meta_horizonYears :: real
  meta_saleMode :: string
  meta_saleYear :: "real option"
  meta_totalInvestment :: real
  meta_financingNeed :: real
  meta_loanAmount1 :: real
  meta_disagio :: real
  meta_afaBasis :: real
  meta_purchaseCostBasis :: real

record Kpis =
  equityInvested :: real
  equityPositionEnd :: real
  totalProfit :: real
  roeTotal :: real
  roeAnnualized :: real
  equityMultiple :: real
  propertyValueEnd :: real
  remainingDebtEnd :: real
  cumulativeCFEnd :: real
  altEndValue :: real
  altProfit :: real

record SimulationResult =
  meta :: Meta
  years :: "YearRecord list"
  kpis :: Kpis

text \<open>Lines 341-344.\<close>

definition yearsUsed :: "unpacked \<Rightarrow> real" where
  "yearsUsed p =
     (if saleMode p = ''sell'' \<and> saleYear p \<noteq> None
      then min (the (saleYear p)) (horizonYears p)
      else horizonYears p)"

text \<open>Lines 346-363 and 379-391, from the last record of the ledger.\<close>

definition kpisOf :: "unpacked \<Rightarrow> YearRecord \<Rightarrow> Kpis" where
  "kpisOf p lastRec =
     (let equityInvested = equity p;
          equityPositionEnd = equityPosition lastRec;
          totalProfit = equityPositionEnd;
          roeTotal = (if equityInvested > 0 then totalProfit / equityInvested else 0);
          roeAnnualized =
            (if equityInvested > 0 \<and> yearsUsed p > 0
             then Math_pow (1 + roeTotal) (1 / yearsUsed p) - 1
             else 0);
          equityMultiple =
            (if equityInvested > 0 then (equityInvested + totalProfit) / equityInvested else 0);
          altAfterTaxReturn = altReturnBeforeTax p * (1 - altTaxRate p);
          altEndValue = equityInvested * Math_pow (1 + altAfterTaxReturn) (yearsUsed p);
          altProfit = altEndValue - equityInvested
      in \<lparr> equityInvested = equityInvested,
           equityPositionEnd = equityPositionEnd,
           totalProfit = totalProfit,
           roeTotal = roeTotal,
           roeAnnualized = roeAnnualized,
           equityMultiple = equityMultiple,
           propertyValueEnd = propertyValue lastRec,
           remainingDebtEnd = remainingDebt lastRec,
           cumulativeCFEnd = cumulativeCF lastRec,
           altEndValue = altEndValue,
           altProfit = altProfit \<rparr>)"

definition metaOf :: "unpacked \<Rightarrow> Meta" where
  "metaOf p =
     \<lparr> meta_startYear = startYear p,
       meta_horizonYears = horizonYears p,
       meta_saleMode = saleMode p,
       meta_saleYear = saleYear p,
       meta_totalInvestment = totalInvestment p,
       meta_financingNeed = financingNeed p,
       meta_loanAmount1 = loanAmount1 p,
       meta_disagio = disagio p,
       meta_afaBasis = afaBasis p,
       meta_purchaseCostBasis = purchaseCostBasis p \<rparr>"

text \<open>
  What the engine can throw: \<^verbatim>\<open>last.equityPosition\<close> (line 348) is a TypeError when
  \<^verbatim>\<open>years\<close> is empty, \<^verbatim>\<open>last\<close> being \<^verbatim>\<open>undefined\<close> then.
\<close>

datatype error = TypeError

text \<open>Lines 131-392, on the unpacked inputs.\<close>

definition simulateUnpacked :: "unpacked \<Rightarrow> error + SimulationResult" where
  "simulateUnpacked p =
     (let ys = yearLoop p 1 (initVars p)
      in case ys of
           [] \<Rightarrow> Inl TypeError
         | _ # _ \<Rightarrow> Inr \<lparr> meta = metaOf p, years = ys, kpis = kpisOf p (last ys) \<rparr>)"

text \<open>\<^verbatim>\<open>export function simulateScenario(inputs = {}, socioContext = null)\<close>, lines 65-393.
  \<^verbatim>\<open>socioContext\<close> is never read.\<close>

definition simulateScenario :: "real \<Rightarrow> inputs \<Rightarrow> error + SimulationResult" where
  "simulateScenario now i = simulateUnpacked (unpack now i)"

section \<open>The run, year by year\<close>

text \<open>The number of iterations of the loop: the years \<open>1, ..., numYears p\<close>.\<close>

definition numYears :: "unpacked \<Rightarrow> nat" where
  "numYears p = nat \<lfloor>horizonYears p\<rfloor>"

text \<open>The variables after the first \<open>k\<close> years of the loop.\<close>

primrec varsAfter :: "unpacked \<Rightarrow> nat \<Rightarrow> vars" where
  "varsAfter p 0 = initVars p"
| "varsAfter p (Suc k) = fst (yearBody p (Suc k) (varsAfter p k))"

text \<open>The record of year \<open>k\<close>, as the loop body computes it.\<close>

definition recordOf :: "unpacked \<Rightarrow> nat \<Rightarrow> YearRecord" where
  "recordOf p k = snd (yearBody p k (varsAfter p (k - 1)))"

section \<open>Notions for stating the claims\<close>

text \<open>
  The loan phase of a year: which branch of lines 201-224 the year takes. \<open>Repaid\<close> is
  the \<^verbatim>\<open>else\<close> branch (no loan, loan repaid, or terms over).
\<close>

datatype phase = Loan1 | Loan2 | Repaid

definition phaseOf :: "unpacked \<Rightarrow> nat \<Rightarrow> vars \<Rightarrow> phase" where
  "phaseOf p year s =
     (if withinLoan1 p year s then Loan1 else if withinLoan2 p year s then Loan2 else Repaid)"

text \<open>The order of the phases.\<close>

fun rank :: "phase \<Rightarrow> nat" where
  "rank Loan1 = 0"
| "rank Loan2 = 1"
| "rank Repaid = 2"

text \<open>The phase of year \<open>k\<close> of the run, and the \<^verbatim>\<open>annualPayment\<close> of that year.\<close>

definition phaseAt :: "unpacked \<Rightarrow> nat \<Rightarrow> phase" where
  "phaseAt p k = phaseOf p k (varsAfter p (k - 1))"

definition paymentAt :: "unpacked \<Rightarrow> nat \<Rightarrow> real" where
  "paymentAt p k = snd (snd (snd (loanStep p k (varsAfter p (k - 1)))))"

text \<open>The debt after year \<open>k\<close>: the first loan at the start, the record's \<^verbatim>\<open>remainingDebt\<close> later.\<close>

definition debtAfter :: "unpacked \<Rightarrow> nat \<Rightarrow> real" where
  "debtAfter p k = (if k = 0 then loanAmount1 p else remainingDebt (recordOf p k))"

text \<open>
  The value of land and building after \<open>k\<close> years of the roll-forward of lines 265-268,
  in closed form.
\<close>

definition marketValue :: "unpacked \<Rightarrow> nat \<Rightarrow> real" where
  "marketValue p k =
     landValue p * (1 + landGrowthRate p) ^ k
     + (buildingValue p + js_or (fittingUp p) 0)
         * (1 - buildingLossRate p + constructionCostGrowth p) ^ k"

section \<open>Concrete inputs\<close>

text \<open>An \<^verbatim>\<open>inputs\<close> object with no field: \<^verbatim>\<open>{}\<close>.\<close>

definition noInputs :: inputs where
  "noInputs =
     \<lparr> startYear_opt = None, buildingValue_opt = None, landValue_opt = None,
       grEStRate_opt = None, maklerRate_opt = None, grundbuchRate_opt = None,
       notaryRate_opt = None, companyCost_opt = None, fittingUp_opt = None,
       initialRepairs_opt = None, buildingLossRate_opt = None, landGrowthRate_opt = None,
       constructionCostGrowth_opt = None, annualMaintenance_opt = None,
       maintenanceGrowth_opt = None, sqm_opt = None, monthlyRent_opt = None,
       vacancyRate_opt = None, rentGrowth_opt = None, incomeTaxRate_opt = None,
       equity_opt = None, loanTermYears1_opt = None, fixRateYears1_opt = None,
       interestRate1_opt = None, discountRate_opt = None, loanTermYears2_opt = None,
       interestRate2_opt = None, sellingCostRate_opt = None, saleMode_opt = None,
       saleYear_opt = None, investmentHorizonYears_opt = None,
       altReturnBeforeTax_opt = None, altTaxRate_opt = None, afaModel_opt = None,
       buildingLifetimeYears_opt = None \<rparr>"

text \<open>The scenario of the specification's testable properties.\<close>

definition scenarioInputs :: inputs where
  "scenarioInputs =
     noInputs\<lparr> buildingValue_opt := Some 200000, landValue_opt := Some 80000,
       grEStRate_opt := Some 0.05, maklerRate_opt := Some 0.03,
       grundbuchRate_opt := Some 0.005, notaryRate_opt := Some 0.015,
       fittingUp_opt := Some 30000, initialRepairs_opt := Some 5000,
       equity_opt := Some 80000, loanTermYears1_opt := Some 30,
       interestRate1_opt := Some 0.035, monthlyRent_opt := Some 1200,
       vacancyRate_opt := Some 0.05, rentGrowth_opt := Some 0.01,
       incomeTaxRate_opt := Some 0.3, afaModel_opt := Some ''Linear 2%'',
       investmentHorizonYears_opt := Some 30, saleMode_opt := Some ''hold'',
       discountRate_opt := Some 0 \<rparr>"

text \<open>A sale in year 1 of a horizon of 2 years, on a plot worth 100 bought on credit.\<close>

definition soldInputs :: inputs where
  "soldInputs =
     noInputs\<lparr> startYear_opt := Some 2025, landValue_opt := Some 100,
       saleMode_opt := Some ''sell'', saleYear_opt := Some 1,
       investmentHorizonYears_opt := Some 2 \<rparr>"

text \<open>A sale due in year 0 of a horizon of one year: it is never due.\<close>

definition neverSoldInputs :: inputs where
  "neverSoldInputs =
     noInputs\<lparr> startYear_opt := Some 2025, landValue_opt := Some 1000, equity_opt := Some 100,
       altReturnBeforeTax_opt := Some 0.1, saleMode_opt := Some ''sell'',
       saleYear_opt := Some 0, investmentHorizonYears_opt := Some 1 \<rparr>"

text \<open>A sale due in year 5 of a horizon of two years.\<close>

definition lateSaleInputs :: inputs where
  "lateSaleInputs =
     noInputs\<lparr> startYear_opt := Some 2025, landValue_opt := Some 1000, equity_opt := Some 100,
       altReturnBeforeTax_opt := Some 0.1, saleMode_opt := Some ''sell'',
       saleYear_opt := Some 5, investmentHorizonYears_opt := Some 2 \<rparr>"

text \<open>A plot bought for 1000 with a loan of 600 over two years, sold after one year at 1100.\<close>

definition taxedSaleInputs :: inputs where
  "taxedSaleInputs =
     noInputs\<lparr> startYear_opt := Some 2025, landValue_opt := Some 1000,
       landGrowthRate_opt := Some 0.1, incomeTaxRate_opt := Some 0.3,
       equity_opt := Some 400, loanTermYears1_opt := Some 2,
       saleMode_opt := Some ''sell'', saleYear_opt := Some 1,
       investmentHorizonYears_opt := Some 1 \<rparr>"

text \<open>
  A loan of 600 at no interest, with a first term of a year and a half and a second of two
  years: the first annuity leaves 200 to the second loan.
\<close>

definition twoPhaseInputs :: inputs where
  "twoPhaseInputs =
     noInputs\<lparr> startYear_opt := Some 2025, landValue_opt := Some 1000, equity_opt := Some 400,
       loanTermYears1_opt := Some 1.5, loanTermYears2_opt := Some 2,
       investmentHorizonYears_opt := Some 4 \<rparr>"




text \<open>A sale due in year 0, on a plot that gains 10% in the one simulated year.\<close>

definition zeroYearsInputs :: inputs where
  "zeroYearsInputs =
     noInputs\<lparr> startYear_opt := Some 2025, landValue_opt := Some 1000,
       landGrowthRate_opt := Some 0.1, equity_opt := Some 100, saleMode_opt := Some ''sell'',
       saleYear_opt := Some 0, investmentHorizonYears_opt := Some 1 \<rparr>"

text \<open>
  Inputs on which every guard is taken: no purchase price, no equity, a discount of 100%, no
  loan term, a negative horizon and a negative sale year.
\<close>

definition guardedInputs :: inputs where
  "guardedInputs =
     noInputs\<lparr> startYear_opt := Some 2025, fittingUp_opt := Some 500,
       discountRate_opt := Some 1, saleMode_opt := Some ''sell'', saleYear_opt := Some (- 1),
       investmentHorizonYears_opt := Some (- 3) \<rparr>"

section \<open>The ledger as a list of records\<close>

lemma horizonYears_ge_1: "1 \<le> horizonYears p"
  by (simp add: horizonYears_def)

lemma numYears_pos: "1 \<le> numYears p"
  using horizonYears_ge_1 [of p] by (simp add: numYears_def le_nat_floor)

lemma year_le_horizon: "real y \<le> horizonYears p \<longleftrightarrow> y \<le> numYears p"
proof
  assume "real y \<le> horizonYears p"
  then show "y \<le> numYears p"
    unfolding numYears_def by (rule le_nat_floor)
next
  assume le: "y \<le> numYears p"
  have "0 \<le> horizonYears p"
    using horizonYears_ge_1 [of p] by simp
  then have "real (nat \<lfloor>horizonYears p\<rfloor>) \<le> horizonYears p"
    by (rule of_nat_floor)
  moreover have "real y \<le> real (nat \<lfloor>horizonYears p\<rfloor>)"
    using le unfolding numYears_def by simp
  ultimately show "real y \<le> horizonYears p"
    by simp
qed

lemma yearLoop_step:
  "y \<le> numYears p \<Longrightarrow>
     yearLoop p y s = snd (yearBody p y s) # yearLoop p (Suc y) (fst (yearBody p y s))"
  by (subst yearLoop.simps) (simp add: year_le_horizon split: prod.split)

lemma yearLoop_done: "numYears p < y \<Longrightarrow> yearLoop p y s = []"
  by (subst yearLoop.simps) (simp add: year_le_horizon)

lemma yearLoop_map:
  "yearLoop p (Suc j) (varsAfter p j) = map (recordOf p) [Suc j ..< Suc (numYears p)]"
proof (induction "numYears p - j" arbitrary: j)
  case 0
  then have "numYears p < Suc j" by simp
  then show ?case by (simp add: yearLoop_done)
next
  case (Suc d)
  then have le: "Suc j \<le> numYears p" and d: "d = numYears p - Suc j" by simp_all
  have "yearLoop p (Suc j) (varsAfter p j)
      = recordOf p (Suc j) # yearLoop p (Suc (Suc j)) (varsAfter p (Suc j))"
    using le by (simp add: yearLoop_step recordOf_def)
  also have "\<dots> = recordOf p (Suc j) # map (recordOf p) [Suc (Suc j) ..< Suc (numYears p)]"
    using Suc.hyps(1) [OF d] by simp
  also have "\<dots> = map (recordOf p) [Suc j ..< Suc (numYears p)]"
    using le by (subst (2) upt_rec) simp
  finally show ?case .
qed

lemma ledger_map:
  "yearLoop p 1 (initVars p) = map (recordOf p) [1 ..< Suc (numYears p)]"
  using yearLoop_map [of p 0] by simp

lemma simulateUnpacked_Inr:
  "simulateUnpacked p =
     Inr \<lparr> meta = metaOf p, years = map (recordOf p) [1 ..< Suc (numYears p)],
           kpis = kpisOf p (recordOf p (numYears p)) \<rparr>"
proof -
  have ne: "[1 ..< Suc (numYears p)] \<noteq> []"
    using numYears_pos [of p] by simp
  have "[1 ..< Suc (numYears p)] = [1 ..< numYears p] @ [numYears p]"
    using numYears_pos [of p] by simp
  then have l: "last (map (recordOf p) [1 ..< Suc (numYears p)]) = recordOf p (numYears p)"
    by (simp del: upt_Suc)
  show ?thesis
    unfolding simulateUnpacked_def ledger_map Let_def using ne l
    by (cases "map (recordOf p) [1 ..< Suc (numYears p)]") (simp_all del: upt_Suc)
qed

lemma ledger_nth:
  assumes "1 \<le> j" "j \<le> numYears p"
  shows "map (recordOf p) [1 ..< Suc (numYears p)] ! (j - 1) = recordOf p j"
proof -
  have "j - 1 < length [1 ..< Suc (numYears p)]"
    using assms by simp
  then have "map (recordOf p) [1 ..< Suc (numYears p)] ! (j - 1)
      = recordOf p ([1 ..< Suc (numYears p)] ! (j - 1))"
    by (rule nth_map)
  also have "[1 ..< Suc (numYears p)] ! (j - 1) = j"
    using assms by (simp del: upt_Suc)
  finally show ?thesis .
qed

section \<open>One year of the loop\<close>

lemma term_rate_names:
  "n1 p = loanTermYears1 p" "n2 p = loanTermYears2 p"
  "r1 p = interestRate1 p" "r2 p = interestRate2 p"
  by (simp_all add: n1_def n2_def r1_def r2_def js_or_def)

lemma loanStep_keeps:
  "landVal_v (fst (loanStep p y s)) = landVal_v s"
  "buildingVal_v (fst (loanStep p y s)) = buildingVal_v s"
  "cumulativeCF_v (fst (loanStep p y s)) = cumulativeCF_v s"
  "saleHappened_v (fst (loanStep p y s)) = saleHappened_v s"
  by (simp_all add: loanStep_def Let_def)

lemma loanStep_principal_le:
  "fst (snd (snd (loanStep p y s))) \<le> max 0 (remainingDebt_v s)"
  by (simp add: loanStep_def Let_def withinLoan1_def withinLoan2_def)

lemma loanStep_debt:
  "remainingDebt_v (fst (loanStep p y s)) = remainingDebt_v s - fst (snd (snd (loanStep p y s)))"
  by (simp add: loanStep_def Let_def)

lemma loanStep_debt_nonneg:
  "0 \<le> remainingDebt_v s \<Longrightarrow> 0 \<le> remainingDebt_v (fst (loanStep p y s))"
  by (simp add: loanStep_def Let_def)

lemma saleFires_cong:
  "saleHappened_v s' = saleHappened_v s \<Longrightarrow> saleFires p y s' = saleFires p y s"
  by (simp add: saleFires_def)

lemma yearBody_saleFires:
  "saleFires p y
     (fst (loanStep p y s)\<lparr> landVal_v := a, buildingVal_v := b, propertyVal_v := c,
        cumulativeCF_v := d \<rparr>) = saleFires p y s"
  by (simp add: saleFires_def loanStep_keeps)

lemma yearBody_rent:
  "grossRent (snd (yearBody p y s)) =
     monthlyRent p * 12 * Math_pow (1 + rentGrowth p) (max (real y - 1) 0)"
  "netRent (snd (yearBody p y s)) = grossRent (snd (yearBody p y s)) * (1 - vacancyRate p)"
  by (simp_all add: yearBody_def Let_def case_prod_beta)

lemma yearBody_values:
  "landVal_v (fst (yearBody p y s)) = landVal_v s * (1 + landGrowthRate p)"
  "buildingVal_v (fst (yearBody p y s)) =
     buildingVal_v s * (1 - buildingLossRate p + constructionCostGrowth p)"
  by (simp_all add: yearBody_def Let_def case_prod_beta loanStep_keeps)

lemma yearBody_debt:
  "remainingDebt_v (fst (yearBody p y s)) =
     (if saleFires p y s then 0 else remainingDebt_v (fst (loanStep p y s)))"
  by (simp add: yearBody_def Let_def case_prod_beta yearBody_saleFires)

lemma yearBody_record_debt:
  "remainingDebt (snd (yearBody p y s)) = remainingDebt_v (fst (yearBody p y s))"
  by (simp add: yearBody_def Let_def case_prod_beta yearBody_saleFires)

lemma yearBody_loan:
  "interestPaid (snd (yearBody p y s)) = fst (snd (loanStep p y s))"
  "principalPaid (snd (yearBody p y s)) = fst (snd (snd (loanStep p y s)))"
  "annuity2_v (fst (yearBody p y s)) = annuity2_v (fst (loanStep p y s))"
  "secondLoanStarted_v (fst (yearBody p y s)) = secondLoanStarted_v (fst (loanStep p y s))"
  "cumPrincipal_v (fst (yearBody p y s)) = cumPrincipal_v (fst (loanStep p y s))"
  by (simp_all add: yearBody_def Let_def case_prod_beta yearBody_saleFires)

lemma yearBody_saleHappened:
  "saleHappened_v (fst (yearBody p y s)) = (saleHappened_v s \<or> saleFires p y s)"
  by (simp add: yearBody_def Let_def case_prod_beta yearBody_saleFires loanStep_keeps)

lemma yearBody_sale_record:
  assumes "saleFires p y s"
  shows "propertyValue (snd (yearBody p y s)) = 0"
    and "equityPosition (snd (yearBody p y s))
           = wealthFromCFAndLoan (snd (yearBody p y s)) - totalInvestment p"
    and "cashAfterTax (snd (yearBody p y s))
           = cashBeforeTax (snd (yearBody p y s)) + taxCash (snd (yearBody p y s))
             + ((landVal_v s * (1 + landGrowthRate p)
                  + buildingVal_v s * (1 - buildingLossRate p + constructionCostGrowth p))
                 * (1 - sellingCostRate p)
                - remainingDebt_v (fst (loanStep p y s))
                - cgtOf p ((landVal_v s * (1 + landGrowthRate p)
                     + buildingVal_v s * (1 - buildingLossRate p + constructionCostGrowth p))
                    * (1 - sellingCostRate p) - purchaseCostBasis p))"
  using assms
  by (simp_all add: yearBody_def Let_def case_prod_beta yearBody_saleFires loanStep_keeps)

lemma recordOf_debt: "1 \<le> k \<Longrightarrow> remainingDebt (recordOf p k) = remainingDebt_v (varsAfter p k)"
  by (cases k) (simp_all add: recordOf_def yearBody_record_debt)

lemma varsAfter_pred: "1 \<le> k \<Longrightarrow> varsAfter p k = fst (yearBody p k (varsAfter p (k - 1)))"
  by (cases k) simp_all

lemma debtAfter_vars: "debtAfter p k = remainingDebt_v (varsAfter p k)"
  by (cases k) (simp_all add: debtAfter_def initVars_def recordOf_debt)

lemma varsAfter_values:
  "landVal_v (varsAfter p k) = landValue p * (1 + landGrowthRate p) ^ k"
  "buildingVal_v (varsAfter p k) =
     (buildingValue p + js_or (fittingUp p) 0)
       * (1 - buildingLossRate p + constructionCostGrowth p) ^ k"
  by (induction k) (simp_all add: initVars_def yearBody_values)

lemma varsAfter_debt_nonneg:
  "0 \<le> loanAmount1 p \<Longrightarrow> 0 \<le> remainingDebt_v (varsAfter p k)"
  by (induction k) (simp_all add: initVars_def yearBody_debt loanStep_debt_nonneg)

lemma varsAfter_saleHappened:
  "saleHappened_v (varsAfter p k) \<Longrightarrow> \<exists>y. 1 \<le> y \<and> y \<le> k \<and> saleYear p = Some (real y)"
proof (induction k)
  case 0
  then show ?case by (simp add: initVars_def)
next
  case (Suc k)
  then consider "saleHappened_v (varsAfter p k)" | "saleFires p (Suc k) (varsAfter p k)"
    by (auto simp add: yearBody_saleHappened)
  then show ?case
  proof cases
    case 1
    with Suc.IH obtain y where "1 \<le> y" "y \<le> k" "saleYear p = Some (real y)" by blast
    then show ?thesis by (intro exI [of _ y]) simp
  next
    case 2
    then have "saleYear p = Some (real (Suc k))" by (simp add: saleFires_def)
    then show ?thesis by (intro exI [of _ "Suc k"]) simp
  qed
qed

lemma sale_due_fires:
  assumes "saleMode p = ''sell''" "saleYear p = Some (real k)" "1 \<le> k"
  shows "saleFires p k (varsAfter p (k - 1))"
proof -
  have "\<not> saleHappened_v (varsAfter p (k - 1))"
  proof
    assume "saleHappened_v (varsAfter p (k - 1))"
    then obtain y where y: "1 \<le> y" "y \<le> k - 1" "saleYear p = Some (real y)"
      using varsAfter_saleHappened by blast
    with assms(2) have "y = k" by simp
    with y(1,2) show False by simp
  qed
  then show ?thesis using assms by (simp add: saleFires_def)
qed

lemma kpisOf_fields:
  "equityInvested (kpisOf p l) = equity p"
  "equityPositionEnd (kpisOf p l) = equityPosition l"
  "totalProfit (kpisOf p l) = equityPosition l"
  "roeTotal (kpisOf p l) = (if equity p > 0 then equityPosition l / equity p else 0)"
  "roeAnnualized (kpisOf p l) =
     (if equity p > 0 \<and> yearsUsed p > 0
      then Math_pow (1 + roeTotal (kpisOf p l)) (1 / yearsUsed p) - 1 else 0)"
  "equityMultiple (kpisOf p l) =
     (if equity p > 0 then (equity p + equityPosition l) / equity p else 0)"
  "propertyValueEnd (kpisOf p l) = propertyValue l"
  "remainingDebtEnd (kpisOf p l) = remainingDebt l"
  "cumulativeCFEnd (kpisOf p l) = cumulativeCF l"
  "altEndValue (kpisOf p l) =
     equity p * Math_pow (1 + altReturnBeforeTax p * (1 - altTaxRate p)) (yearsUsed p)"
  "altProfit (kpisOf p l) = altEndValue (kpisOf p l) - equity p"
  by (simp_all add: kpisOf_def Let_def)

lemma kpisOf_cong:
  assumes "equity p' = equity p" "altReturnBeforeTax p' = altReturnBeforeTax p"
    "altTaxRate p' = altTaxRate p" "yearsUsed p' = yearsUsed p"
  shows "kpisOf p' l = kpisOf p l"
  by (simp only: kpisOf_def assms)

section \<open>The sale\<close>

subsection \<open>Property value after the sale\<close>

text \<open>
  C1. Claimed: with \<^verbatim>\<open>saleMode = "sell"\<close> and \<^verbatim>\<open>saleYear\<close> within the horizon, the record
  of the sale year and of every later year has \<^verbatim>\<open>propertyValue = 0\<close> and
  \<^verbatim>\<open>equityPosition = wealthFromCFAndLoan - totalInvestment\<close>. The code resets
  \<^verbatim>\<open>propertyVal\<close> in the sale year only (line 307); line 268 of the next iteration assigns
  it again from the land and building values, which keep rolling forward. On the sale in
  year 1 of 2 the second record has \<^verbatim>\<open>propertyValue = 100\<close> and
  \<^verbatim>\<open>equityPosition = 0\<close>, where the claim has 0 and \<open>0 - 100\<close>.
\<close>

theorem sold_property_revalued:
  "map_sum id (map propertyValue \<circ> years) (simulateScenario now soldInputs) = Inr [0, 100]
   \<and> map_sum id (map wealthFromCFAndLoan \<circ> years) (simulateScenario now soldInputs) = Inr [0, 0]
   \<and> map_sum id (map equityPosition \<circ> years) (simulateScenario now soldInputs) = Inr [- 100, 0]
   \<and> map_sum id (meta_totalInvestment \<circ> meta) (simulateScenario now soldInputs) = Inr 100
   \<and> map_sum id (propertyValueEnd \<circ> kpis) (simulateScenario now soldInputs) = Inr 100"
  by code_simp

subsection \<open>A sale that is never due\<close>

text \<open>
  C2, as claimed: with \<^verbatim>\<open>saleMode = "sell"\<close> and a \<^verbatim>\<open>saleYear\<close> that is no simulated year,
  the ledger and the KPIs are those of \<^verbatim>\<open>saleMode = "hold"\<close>. It fails for the KPIs:
  \<^verbatim>\<open>yearsUsed\<close> (lines 341-344) is \<^verbatim>\<open>Math.min(saleYear, horizonYears)\<close> whether or not the
  sale took place. With \<^verbatim>\<open>saleYear = 0\<close>, an equity of 100 and an alternative return of 10%
  over one year, \<^verbatim>\<open>altEndValue\<close> is 100 under "sell" and 110 under "hold".
\<close>

theorem sale_never_due_counterexample:
  "saleYear_opt neverSoldInputs = Some 0
   \<and> map_sum id (map yearIndex \<circ> years) (simulateScenario 2025 neverSoldInputs) = Inr [1]
   \<and> map_sum id (altEndValue \<circ> kpis) (simulateScenario 2025 neverSoldInputs) = Inr 100
   \<and> map_sum id (altEndValue \<circ> kpis)
        (simulateScenario 2025 (neverSoldInputs\<lparr> saleMode_opt := Some ''hold'' \<rparr>)) = Inr 110"
  by code_simp

lemma saleMode_irrelevant:
  "horizonYears (p\<lparr> saleMode := m \<rparr>) = horizonYears p"
  "totalInvestment (p\<lparr> saleMode := m \<rparr>) = totalInvestment p"
  "financingNeed (p\<lparr> saleMode := m \<rparr>) = financingNeed p"
  "loanAmount1 (p\<lparr> saleMode := m \<rparr>) = loanAmount1 p"
  "disagio (p\<lparr> saleMode := m \<rparr>) = disagio p"
  "afaBasis (p\<lparr> saleMode := m \<rparr>) = afaBasis p"
  "purchaseCostBasis (p\<lparr> saleMode := m \<rparr>) = purchaseCostBasis p"
  "r1 (p\<lparr> saleMode := m \<rparr>) = r1 p"
  "r2 (p\<lparr> saleMode := m \<rparr>) = r2 p"
  "n1 (p\<lparr> saleMode := m \<rparr>) = n1 p"
  "n2 (p\<lparr> saleMode := m \<rparr>) = n2 p"
  "annuity1 (p\<lparr> saleMode := m \<rparr>) = annuity1 p"
  "numYears (p\<lparr> saleMode := m \<rparr>) = numYears p"
  "initVars (p\<lparr> saleMode := m \<rparr>) = initVars p"
  by (simp_all add: horizonYears_def totalInvestment_def financingNeed_def loanAmount1_def
      disagio_def afaBasis_def purchaseCostBasis_def r1_def r2_def n1_def n2_def annuity1_def
      numYears_def initVars_def payoutFactor_def sideCostsTotal_def sideCostsVariable_def
      sideCostRate_def purchasePrice_def buildingShare_def)

lemma loanStep_saleMode: "loanStep (p\<lparr> saleMode := m \<rparr>) y s = loanStep p y s"
  by (simp add: loanStep_def withinLoan1_def withinLoan2_def saleMode_irrelevant)

lemma yearBody_no_sale:
  assumes "saleYear p \<noteq> Some (real y)"
  shows "yearBody (p\<lparr> saleMode := m \<rparr>) y s = yearBody p y s"
  using assms
  by (simp add: yearBody_def saleFires_def loanStep_saleMode saleMode_irrelevant Let_def
      case_prod_beta)

lemma varsAfter_no_sale:
  assumes "\<forall>y. 1 \<le> y \<and> y \<le> k \<longrightarrow> saleYear p \<noteq> Some (real y)"
  shows "varsAfter (p\<lparr> saleMode := m \<rparr>) k = varsAfter p k"
  using assms
proof (induction k)
  case 0
  show ?case by (simp add: saleMode_irrelevant)
next
  case (Suc k)
  have "1 \<le> Suc k \<and> Suc k \<le> Suc k" by simp
  with Suc.prems have ne: "saleYear p \<noteq> Some (real (Suc k))" by blast
  have "varsAfter (p\<lparr> saleMode := m \<rparr>) k = varsAfter p k"
    using Suc by simp
  with ne show ?case
    by (simp add: yearBody_no_sale del: of_nat_Suc)
qed

lemma recordOf_no_sale:
  assumes "\<forall>y. 1 \<le> y \<and> y \<le> k \<longrightarrow> saleYear p \<noteq> Some (real y)" and "1 \<le> k"
  shows "recordOf (p\<lparr> saleMode := m \<rparr>) k = recordOf p k"
proof -
  have "varsAfter (p\<lparr> saleMode := m \<rparr>) (k - 1) = varsAfter p (k - 1)"
    using assms(1) by (intro varsAfter_no_sale) auto
  moreover have "saleYear p \<noteq> Some (real k)"
    using assms by simp
  ultimately show ?thesis
    by (simp add: recordOf_def yearBody_no_sale)
qed

lemma ledger_no_sale:
  assumes "\<forall>y. 1 \<le> y \<and> y \<le> numYears p \<longrightarrow> saleYear p \<noteq> Some (real y)"
  shows "map (recordOf (p\<lparr> saleMode := m \<rparr>)) [1 ..< Suc (numYears p)]
       = map (recordOf p) [1 ..< Suc (numYears p)]"
proof (rule map_cong [OF refl])
  fix k assume "k \<in> set [1 ..< Suc (numYears p)]"
  then have k: "1 \<le> k" "k \<le> numYears p" by auto
  have "\<forall>y. 1 \<le> y \<and> y \<le> k \<longrightarrow> saleYear p \<noteq> Some (real y)"
    using assms k(2) by auto
  then show "recordOf (p\<lparr> saleMode := m \<rparr>) k = recordOf p k"
    using k(1) by (rule recordOf_no_sale)
qed

lemma unpack_saleMode:
  "unpack now (i\<lparr> saleMode_opt := Some m \<rparr>) = (unpack now i)\<lparr> saleMode := m \<rparr>"
  by (simp add: unpack_def dflt_def)

text \<open>
  C2, amended: with \<^verbatim>\<open>saleMode = "sell"\<close> and a \<^verbatim>\<open>saleYear\<close> that is no simulated year, no
  sale takes place: the ledger is that of \<^verbatim>\<open>saleMode = "hold"\<close>, and so are the KPIs
  \<^verbatim>\<open>equityInvested\<close>, \<^verbatim>\<open>equityPositionEnd\<close>, \<^verbatim>\<open>totalProfit\<close>, \<^verbatim>\<open>roeTotal\<close>,
  \<^verbatim>\<open>equityMultiple\<close>, \<^verbatim>\<open>propertyValueEnd\<close>, \<^verbatim>\<open>remainingDebtEnd\<close> and
  \<^verbatim>\<open>cumulativeCFEnd\<close>. All the KPIs (also \<^verbatim>\<open>roeAnnualized\<close>, \<^verbatim>\<open>altEndValue\<close> and
  \<^verbatim>\<open>altProfit\<close>, which depend on \<^verbatim>\<open>yearsUsed\<close>) are those of "hold" when \<^verbatim>\<open>saleYear\<close> is
  \<^verbatim>\<open>null\<close> or at least \<^verbatim>\<open>horizonYears\<close>.
\<close>

theorem sale_never_due_is_hold:
  assumes sell: "saleMode (unpack now i) = ''sell''"
    and never: "\<forall>y. 1 \<le> y \<and> real y \<le> horizonYears (unpack now i)
                  \<longrightarrow> saleYear (unpack now i) \<noteq> Some (real y)"
  shows "\<exists>r h. simulateScenario now i = Inr r
           \<and> simulateScenario now (i\<lparr> saleMode_opt := Some ''hold'' \<rparr>) = Inr h
           \<and> years r = years h
           \<and> equityInvested (kpis r) = equityInvested (kpis h)
           \<and> equityPositionEnd (kpis r) = equityPositionEnd (kpis h)
           \<and> totalProfit (kpis r) = totalProfit (kpis h)
           \<and> roeTotal (kpis r) = roeTotal (kpis h)
           \<and> equityMultiple (kpis r) = equityMultiple (kpis h)
           \<and> propertyValueEnd (kpis r) = propertyValueEnd (kpis h)
           \<and> remainingDebtEnd (kpis r) = remainingDebtEnd (kpis h)
           \<and> cumulativeCFEnd (kpis r) = cumulativeCFEnd (kpis h)
           \<and> ((case saleYear (unpack now i) of None \<Rightarrow> True
                 | Some sy \<Rightarrow> horizonYears (unpack now i) \<le> sy)
                \<longrightarrow> kpis r = kpis h)"
proof -
  let ?p = "unpack now i"
  let ?h = "?p\<lparr> saleMode := ''hold'' \<rparr>"
  have never': "\<forall>y. 1 \<le> y \<and> y \<le> numYears ?p \<longrightarrow> saleYear ?p \<noteq> Some (real y)"
    using never by (simp add: year_le_horizon)
  have led: "map (recordOf ?h) [1 ..< Suc (numYears ?p)] = map (recordOf ?p) [1 ..< Suc (numYears ?p)]"
    using never' by (rule ledger_no_sale)
  have lastr: "recordOf ?h (numYears ?p) = recordOf ?p (numYears ?p)"
    using never' numYears_pos [of ?p] by (intro recordOf_no_sale) auto
  have full: "kpisOf ?h l = kpisOf ?p l"
    if "case saleYear ?p of None \<Rightarrow> True | Some sy \<Rightarrow> horizonYears ?p \<le> sy" for l
  proof (rule kpisOf_cong)
    show "yearsUsed ?h = yearsUsed ?p"
      using that by (auto simp add: yearsUsed_def saleMode_irrelevant split: option.splits)
  qed simp_all
  show ?thesis
    unfolding simulateScenario_def unpack_saleMode simulateUnpacked_Inr
    using led lastr full
    by (simp add: saleMode_irrelevant kpisOf_fields del: upt_Suc)
qed

theorem sale_never_due_is_hold_witness:
  "saleMode (unpack 2025 lateSaleInputs) = ''sell''
   \<and> saleYear (unpack 2025 lateSaleInputs) = Some 5
   \<and> horizonYears (unpack 2025 lateSaleInputs) = 2
   \<and> (\<exists>r h. simulateScenario 2025 lateSaleInputs = Inr r
         \<and> simulateScenario 2025 (lateSaleInputs\<lparr> saleMode_opt := Some ''hold'' \<rparr>) = Inr h
         \<and> years r = years h \<and> kpis r = kpis h)"
proof -
  let ?p = "unpack 2025 lateSaleInputs"
  have sell: "saleMode ?p = ''sell''"
    by (simp add: unpack_def lateSaleInputs_def noInputs_def dflt_def)
  have sy: "saleYear ?p = Some 5"
    by (simp add: unpack_def lateSaleInputs_def noInputs_def dflt_def)
  have hz: "horizonYears ?p = 2"
    by (simp add: horizonYears_def js_or_def unpack_def lateSaleInputs_def noInputs_def dflt_def)
  have never: "\<forall>y. 1 \<le> y \<and> real y \<le> horizonYears ?p \<longrightarrow> saleYear ?p \<noteq> Some (real y)"
    unfolding sy hz by auto
  show ?thesis
    using sale_never_due_is_hold [OF sell never] sell by (auto simp add: sy hz)
qed

subsection \<open>Capital-gains tax\<close>

lemma taxedSale_fields:
  "saleMode (unpack 2025 taxedSaleInputs) = ''sell''"
  "saleYear (unpack 2025 taxedSaleInputs) = Some 1"
  "horizonYears (unpack 2025 taxedSaleInputs) = 1"
  "loanAmount1 (unpack 2025 taxedSaleInputs) = 600"
  "purchaseCostBasis (unpack 2025 taxedSaleInputs) = 1000"
  "marketValue (unpack 2025 taxedSaleInputs) (Suc 0) = 1100"
  "sellingCostRate (unpack 2025 taxedSaleInputs) = 0"
  "incomeTaxRate (unpack 2025 taxedSaleInputs) = 0.3"
  by (simp_all add: horizonYears_def loanAmount1_def payoutFactor_def financingNeed_def
      totalInvestment_def sideCostsTotal_def sideCostsVariable_def sideCostRate_def
      purchasePrice_def purchaseCostBasis_def buildingShare_def marketValue_def js_or_def
      unpack_def taxedSaleInputs_def noInputs_def dflt_def)

text \<open>
  C4. When the sale takes place, in year \<open>k = saleYear\<close>, the tax charged on it is
  \<^verbatim>\<open>capitalGain * incomeTaxRate\<close> if \<open>k \<le> 10\<close> and the capital gain is positive, and 0
  otherwise, so 0 whenever \<open>k > 10\<close>. The tax is no field of the record: it is what the
  sale year's \<^verbatim>\<open>cashAfterTax\<close> loses against the sale proceeds after repaying the debt,
  where the proceeds are the market value of year \<open>k\<close> less selling costs, the capital gain
  is the proceeds less \<^verbatim>\<open>purchaseCostBasis\<close>, and the debt repaid is the debt of the year
  before less the principal paid in year \<open>k\<close>.
\<close>

theorem capital_gains_tax:
  assumes sell: "saleMode (unpack now i) = ''sell''"
    and due: "saleYear (unpack now i) = Some (real k)"
    and k: "1 \<le> k" "real k \<le> horizonYears (unpack now i)"
  shows "\<exists>r. simulateScenario now i = Inr r \<and> k \<le> length (years r)
           \<and> (let p = unpack now i;
                   sold = years r ! (k - 1);
                   debtBefore = (if k = 1 then loanAmount1 p else remainingDebt (years r ! (k - 2)));
                   repayDebt = debtBefore - principalPaid sold;
                   saleGross = marketValue p k * (1 - sellingCostRate p);
                   capitalGain = saleGross - purchaseCostBasis p;
                   cgt = (if real k \<le> 10 \<and> capitalGain > 0
                          then capitalGain * incomeTaxRate p else 0)
               in yearIndex sold = k
                  \<and> cashAfterTax sold
                      = cashBeforeTax sold + taxCash sold + (saleGross - repayDebt - cgt)
                  \<and> (real k > 10 \<longrightarrow>
                       cashAfterTax sold
                         = cashBeforeTax sold + taxCash sold + (saleGross - repayDebt)))"
proof -
  let ?p = "unpack now i"
  let ?s = "varsAfter ?p (k - 1)"
  let ?sold = "recordOf ?p k"
  let ?gross = "marketValue ?p k * (1 - sellingCostRate ?p)"
  let ?gain = "?gross - purchaseCostBasis ?p"
  have kn: "k \<le> numYears ?p"
    using k(2) by (simp add: year_le_horizon)
  have fires: "saleFires ?p k ?s"
    using sell due k(1) by (rule sale_due_fires)
  have mv: "landVal_v ?s * (1 + landGrowthRate ?p)
        + buildingVal_v ?s * (1 - buildingLossRate ?p + constructionCostGrowth ?p)
      = marketValue ?p k"
    using k(1) by (cases k) (simp_all add: varsAfter_values marketValue_def)
  have prev: "remainingDebt_v ?s
      = (if k = 1 then loanAmount1 ?p else remainingDebt (recordOf ?p (k - 1)))"
    using k(1) by (cases "k = 1") (simp_all add: recordOf_debt initVars_def)
  have repay: "remainingDebt_v (fst (loanStep ?p k ?s))
      = (if k = 1 then loanAmount1 ?p else remainingDebt (recordOf ?p (k - 1)))
        - principalPaid ?sold"
  proof -
    have "principalPaid ?sold = fst (snd (snd (loanStep ?p k ?s)))"
      by (simp add: recordOf_def yearBody_loan)
    then show ?thesis
      by (simp only: loanStep_debt prev)
  qed
  have cgt: "cgtOf ?p ?gain
      = (if real k \<le> 10 \<and> ?gain > 0 then ?gain * incomeTaxRate ?p else 0)"
    by (simp add: cgtOf_def due)
  have cash: "cashAfterTax ?sold
      = cashBeforeTax ?sold + taxCash ?sold
        + (?gross
           - ((if k = 1 then loanAmount1 ?p else remainingDebt (recordOf ?p (k - 1)))
              - principalPaid ?sold)
           - (if real k \<le> 10 \<and> ?gain > 0 then ?gain * incomeTaxRate ?p else 0))"
    using yearBody_sale_record(3) [OF fires] unfolding mv repay cgt
    by (simp add: recordOf_def)
  have idx: "yearIndex ?sold = k"
    by (simp add: recordOf_def yearBody_def Let_def case_prod_beta)
  define r where
    "r = \<lparr> meta = metaOf ?p, years = map (recordOf ?p) [1 ..< Suc (numYears ?p)],
           kpis = kpisOf ?p (recordOf ?p (numYears ?p)) \<rparr>"
  have run: "simulateScenario now i = Inr r"
    unfolding simulateScenario_def simulateUnpacked_Inr r_def ..
  have yrs: "years r = map (recordOf ?p) [1 ..< Suc (numYears ?p)]"
    by (simp add: r_def del: upt_Suc)
  have len: "k \<le> length (years r)"
    using kn by (simp add: yrs del: upt_Suc)
  have sold: "years r ! (k - 1) = ?sold"
    unfolding yrs using k(1) kn by (rule ledger_nth)
  have before: "(if k = 1 then loanAmount1 ?p else remainingDebt (years r ! (k - 2)))
      = (if k = 1 then loanAmount1 ?p else remainingDebt (recordOf ?p (k - 1)))"
  proof (cases "k = 1")
    case True
    then show ?thesis by simp
  next
    case False
    have "k - 2 = k - 1 - 1" by simp
    moreover have "1 \<le> k - 1" "k - 1 \<le> numYears ?p"
      using False k(1) kn by simp_all
    ultimately have "years r ! (k - 2) = recordOf ?p (k - 1)"
      unfolding yrs using ledger_nth [of "k - 1" ?p] by simp
    then show ?thesis by simp
  qed
  have late: "cashAfterTax ?sold
      = cashBeforeTax ?sold + taxCash ?sold
        + (?gross
           - ((if k = 1 then loanAmount1 ?p else remainingDebt (recordOf ?p (k - 1)))
              - principalPaid ?sold))"
    if "real k > 10"
    using cash that by simp
  have body:
    "yearIndex (years r ! (k - 1)) = k
     \<and> cashAfterTax (years r ! (k - 1))
         = cashBeforeTax (years r ! (k - 1)) + taxCash (years r ! (k - 1))
           + (?gross
              - ((if k = 1 then loanAmount1 ?p else remainingDebt (years r ! (k - 2)))
                 - principalPaid (years r ! (k - 1)))
              - (if real k \<le> 10 \<and> ?gain > 0 then ?gain * incomeTaxRate ?p else 0))
     \<and> (real k > 10 \<longrightarrow>
          cashAfterTax (years r ! (k - 1))
            = cashBeforeTax (years r ! (k - 1)) + taxCash (years r ! (k - 1))
              + (?gross
                 - ((if k = 1 then loanAmount1 ?p else remainingDebt (years r ! (k - 2)))
                    - principalPaid (years r ! (k - 1)))))"
    unfolding sold before using idx cash late by blast
  show ?thesis
    unfolding Let_def using run len body by blast
qed

theorem capital_gains_tax_witness:
  "saleMode (unpack 2025 taxedSaleInputs) = ''sell''
   \<and> saleYear (unpack 2025 taxedSaleInputs) = Some 1
   \<and> horizonYears (unpack 2025 taxedSaleInputs) = 1
   \<and> (\<exists>r. simulateScenario 2025 taxedSaleInputs = Inr r
        \<and> yearIndex (years r ! 0) = 1
        \<and> cashAfterTax (years r ! 0)
            = cashBeforeTax (years r ! 0) + taxCash (years r ! 0)
              + (1100 - (600 - principalPaid (years r ! 0)) - 30))"
proof -
  let ?p = "unpack 2025 taxedSaleInputs"
  have sell: "saleMode ?p = ''sell''"
    by (rule taxedSale_fields)
  have due: "saleYear ?p = Some (real 1)"
    by (simp add: taxedSale_fields)
  have k: "(1::nat) \<le> 1" "real 1 \<le> horizonYears ?p"
    by (simp_all add: taxedSale_fields)
  show ?thesis
    using capital_gains_tax [OF sell due k]
    by (auto simp add: taxedSale_fields Let_def)
qed

section \<open>Defaults of absent fields\<close>

text \<open>
  C3, as claimed: simulating with a field omitted is simulating with that field set to 0, for
  every numeric field. It fails for \<^verbatim>\<open>investmentHorizonYears\<close>, whose default is 30: with no
  field at all the ledger has 30 records, with \<^verbatim>\<open>investmentHorizonYears: 0\<close> it has one.
\<close>

theorem horizon_default_counterexample:
  "map_sum id (length \<circ> years) (simulateScenario 2025 noInputs) = Inr 30
   \<and> map_sum id (length \<circ> years)
        (simulateScenario 2025 (noInputs\<lparr> investmentHorizonYears_opt := Some 0 \<rparr>)) = Inr 1"
  by (simp add: simulateScenario_def simulateUnpacked_Inr numYears_def horizonYears_def
      js_or_def unpack_def noInputs_def dflt_def del: upt_Suc)

lemma unpack_absent_zero:
  "unpack now (i\<lparr> buildingValue_opt := None \<rparr>) = unpack now (i\<lparr> buildingValue_opt := Some 0 \<rparr>)"
  "unpack now (i\<lparr> landValue_opt := None \<rparr>) = unpack now (i\<lparr> landValue_opt := Some 0 \<rparr>)"
  "unpack now (i\<lparr> grEStRate_opt := None \<rparr>) = unpack now (i\<lparr> grEStRate_opt := Some 0 \<rparr>)"
  "unpack now (i\<lparr> maklerRate_opt := None \<rparr>) = unpack now (i\<lparr> maklerRate_opt := Some 0 \<rparr>)"
  "unpack now (i\<lparr> grundbuchRate_opt := None \<rparr>) = unpack now (i\<lparr> grundbuchRate_opt := Some 0 \<rparr>)"
  "unpack now (i\<lparr> notaryRate_opt := None \<rparr>) = unpack now (i\<lparr> notaryRate_opt := Some 0 \<rparr>)"
  "unpack now (i\<lparr> companyCost_opt := None \<rparr>) = unpack now (i\<lparr> companyCost_opt := Some 0 \<rparr>)"
  "unpack now (i\<lparr> fittingUp_opt := None \<rparr>) = unpack now (i\<lparr> fittingUp_opt := Some 0 \<rparr>)"
  "unpack now (i\<lparr> initialRepairs_opt := None \<rparr>) = unpack now (i\<lparr> initialRepairs_opt := Some 0 \<rparr>)"
  "unpack now (i\<lparr> buildingLossRate_opt := None \<rparr>) = unpack now (i\<lparr> buildingLossRate_opt := Some 0 \<rparr>)"
  "unpack now (i\<lparr> landGrowthRate_opt := None \<rparr>) = unpack now (i\<lparr> landGrowthRate_opt := Some 0 \<rparr>)"
  "unpack now (i\<lparr> constructionCostGrowth_opt := None \<rparr>)
     = unpack now (i\<lparr> constructionCostGrowth_opt := Some 0 \<rparr>)"
  "unpack now (i\<lparr> annualMaintenance_opt := None \<rparr>) = unpack now (i\<lparr> annualMaintenance_opt := Some 0 \<rparr>)"
  "unpack now (i\<lparr> maintenanceGrowth_opt := None \<rparr>) = unpack now (i\<lparr> maintenanceGrowth_opt := Some 0 \<rparr>)"
  "unpack now (i\<lparr> sqm_opt := None \<rparr>) = unpack now (i\<lparr> sqm_opt := Some 0 \<rparr>)"
  "unpack now (i\<lparr> monthlyRent_opt := None \<rparr>) = unpack now (i\<lparr> monthlyRent_opt := Some 0 \<rparr>)"
  "unpack now (i\<lparr> vacancyRate_opt := None \<rparr>) = unpack now (i\<lparr> vacancyRate_opt := Some 0 \<rparr>)"
  "unpack now (i\<lparr> rentGrowth_opt := None \<rparr>) = unpack now (i\<lparr> rentGrowth_opt := Some 0 \<rparr>)"
  "unpack now (i\<lparr> incomeTaxRate_opt := None \<rparr>) = unpack now (i\<lparr> incomeTaxRate_opt := Some 0 \<rparr>)"
  "unpack now (i\<lparr> equity_opt := None \<rparr>) = unpack now (i\<lparr> equity_opt := Some 0 \<rparr>)"
  "unpack now (i\<lparr> loanTermYears1_opt := None \<rparr>) = unpack now (i\<lparr> loanTermYears1_opt := Some 0 \<rparr>)"
  "unpack now (i\<lparr> fixRateYears1_opt := None \<rparr>) = unpack now (i\<lparr> fixRateYears1_opt := Some 0 \<rparr>)"
  "unpack now (i\<lparr> interestRate1_opt := None \<rparr>) = unpack now (i\<lparr> interestRate1_opt := Some 0 \<rparr>)"
  "unpack now (i\<lparr> discountRate_opt := None \<rparr>) = unpack now (i\<lparr> discountRate_opt := Some 0 \<rparr>)"
  "unpack now (i\<lparr> loanTermYears2_opt := None \<rparr>) = unpack now (i\<lparr> loanTermYears2_opt := Some 0 \<rparr>)"
  "unpack now (i\<lparr> sellingCostRate_opt := None \<rparr>) = unpack now (i\<lparr> sellingCostRate_opt := Some 0 \<rparr>)"
  "unpack now (i\<lparr> altReturnBeforeTax_opt := None \<rparr>) = unpack now (i\<lparr> altReturnBeforeTax_opt := Some 0 \<rparr>)"
  by (simp_all add: unpack_def dflt_def)

lemma unpack_absent_other:
  "unpack now (i\<lparr> afaModel_opt := None \<rparr>) = unpack now (i\<lparr> afaModel_opt := Some ''Linear 2%'' \<rparr>)"
  "unpack now (i\<lparr> saleMode_opt := None \<rparr>) = unpack now (i\<lparr> saleMode_opt := Some ''hold'' \<rparr>)"
  "unpack now (i\<lparr> startYear_opt := None \<rparr>) = unpack now (i\<lparr> startYear_opt := Some now \<rparr>)"
  "unpack now (i\<lparr> investmentHorizonYears_opt := None \<rparr>)
     = unpack now (i\<lparr> investmentHorizonYears_opt := Some 30 \<rparr>)"
  "unpack now (i\<lparr> buildingLifetimeYears_opt := None \<rparr>)
     = unpack now (i\<lparr> buildingLifetimeYears_opt := Some 50 \<rparr>)"
  "unpack now (i\<lparr> interestRate2_opt := None \<rparr>)
     = unpack now (i\<lparr> interestRate2_opt := Some (dflt (interestRate1_opt i) 0) \<rparr>)"
  "unpack now (i\<lparr> altTaxRate_opt := None \<rparr>)
     = unpack now (i\<lparr> altTaxRate_opt := Some (dflt (incomeTaxRate_opt i) 0) \<rparr>)"
  by (simp_all add: unpack_def dflt_def)

text \<open>
  C3, amended: an absent field is replaced by the default that the destructuring of lines
  67-129 declares for it, and simulating with the field omitted is simulating with the field
  set to that default. The default is 0 for the numeric fields, but 30 for
  \<^verbatim>\<open>investmentHorizonYears\<close>, 50 for \<^verbatim>\<open>buildingLifetimeYears\<close>, the (defaulted)
  \<^verbatim>\<open>interestRate1\<close> for \<^verbatim>\<open>interestRate2\<close>, the (defaulted) \<^verbatim>\<open>incomeTaxRate\<close> for
  \<^verbatim>\<open>altTaxRate\<close> and the current calendar year for \<^verbatim>\<open>startYear\<close>; it is
  \<^verbatim>\<open>"Linear 2%"\<close> for \<^verbatim>\<open>afaModel\<close> and \<^verbatim>\<open>"hold"\<close> for \<^verbatim>\<open>saleMode\<close>. (The default of
  \<^verbatim>\<open>saleYear\<close> is \<^verbatim>\<open>null\<close>, which the embedding does not tell from an absent field.)
\<close>

theorem absent_field_is_its_default:
  "simulateScenario now (i\<lparr> buildingValue_opt := None \<rparr>)
     = simulateScenario now (i\<lparr> buildingValue_opt := Some 0 \<rparr>)
   \<and> simulateScenario now (i\<lparr> landValue_opt := None \<rparr>)
     = simulateScenario now (i\<lparr> landValue_opt := Some 0 \<rparr>)
   \<and> simulateScenario now (i\<lparr> grEStRate_opt := None \<rparr>)
     = simulateScenario now (i\<lparr> grEStRate_opt := Some 0 \<rparr>)
   \<and> simulateScenario now (i\<lparr> maklerRate_opt := None \<rparr>)
     = simulateScenario now (i\<lparr> maklerRate_opt := Some 0 \<rparr>)
   \<and> simulateScenario now (i\<lparr> grundbuchRate_opt := None \<rparr>)
     = simulateScenario now (i\<lparr> grundbuchRate_opt := Some 0 \<rparr>)
   \<and> simulateScenario now (i\<lparr> notaryRate_opt := None \<rparr>)
     = simulateScenario now (i\<lparr> notaryRate_opt := Some 0 \<rparr>)
   \<and> simulateScenario now (i\<lparr> companyCost_opt := None \<rparr>)
     = simulateScenario now (i\<lparr> companyCost_opt := Some 0 \<rparr>)
   \<and> simulateScenario now (i\<lparr> fittingUp_opt := None \<rparr>)
     = simulateScenario now (i\<lparr> fittingUp_opt := Some 0 \<rparr>)
   \<and> simulateScenario now (i\<lparr> initialRepairs_opt := None \<rparr>)
     = simulateScenario now (i\<lparr> initialRepairs_opt := Some 0 \<rparr>)
   \<and> simulateScenario now (i\<lparr> buildingLossRate_opt := None \<rparr>)
     = simulateScenario now (i\<lparr> buildingLossRate_opt := Some 0 \<rparr>)
   \<and> simulateScenario now (i\<lparr> landGrowthRate_opt := None \<rparr>)
     = simulateScenario now (i\<lparr> landGrowthRate_opt := Some 0 \<rparr>)
   \<and> simulateScenario now (i\<lparr> constructionCostGrowth_opt := None \<rparr>)
     = simulateScenario now (i\<lparr> constructionCostGrowth_opt := Some 0 \<rparr>)
   \<and> simulateScenario now (i\<lparr> annualMaintenance_opt := None \<rparr>)
     = simulateScenario now (i\<lparr> annualMaintenance_opt := Some 0 \<rparr>)
   \<and> simulateScenario now (i\<lparr> maintenanceGrowth_opt := None \<rparr>)
     = simulateScenario now (i\<lparr> maintenanceGrowth_opt := Some 0 \<rparr>)
   \<and> simulateScenario now (i\<lparr> sqm_opt := None \<rparr>)
     = simulateScenario now (i\<lparr> sqm_opt := Some 0 \<rparr>)
   \<and> simulateScenario now (i\<lparr> monthlyRent_opt := None \<rparr>)
     = simulateScenario now (i\<lparr> monthlyRent_opt := Some 0 \<rparr>)
   \<and> simulateScenario now (i\<lparr> vacancyRate_opt := None \<rparr>)
     = simulateScenario now (i\<lparr> vacancyRate_opt := Some 0 \<rparr>)
   \<and> simulateScenario now (i\<lparr> rentGrowth_opt := None \<rparr>)
     = simulateScenario now (i\<lparr> rentGrowth_opt := Some 0 \<rparr>)
   \<and> simulateScenario now (i\<lparr> incomeTaxRate_opt := None \<rparr>)
     = simulateScenario now (i\<lparr> incomeTaxRate_opt := Some 0 \<rparr>)
   \<and> simulateScenario now (i\<lparr> equity_opt := None \<rparr>)
     = simulateScenario now (i\<lparr> equity_opt := Some 0 \<rparr>)
   \<and> simulateScenario now (i\<lparr> loanTermYears1_opt := None \<rparr>)
     = simulateScenario now (i\<lparr> loanTermYears1_opt := Some 0 \<rparr>)
   \<and> simulateScenario now (i\<lparr> fixRateYears1_opt := None \<rparr>)
     = simulateScenario now (i\<lparr> fixRateYears1_opt := Some 0 \<rparr>)
   \<and> simulateScenario now (i\<lparr> interestRate1_opt := None \<rparr>)
     = simulateScenario now (i\<lparr> interestRate1_opt := Some 0 \<rparr>)
   \<and> simulateScenario now (i\<lparr> discountRate_opt := None \<rparr>)
     = simulateScenario now (i\<lparr> discountRate_opt := Some 0 \<rparr>)
   \<and> simulateScenario now (i\<lparr> loanTermYears2_opt := None \<rparr>)
     = simulateScenario now (i\<lparr> loanTermYears2_opt := Some 0 \<rparr>)
   \<and> simulateScenario now (i\<lparr> sellingCostRate_opt := None \<rparr>)
     = simulateScenario now (i\<lparr> sellingCostRate_opt := Some 0 \<rparr>)
   \<and> simulateScenario now (i\<lparr> altReturnBeforeTax_opt := None \<rparr>)
     = simulateScenario now (i\<lparr> altReturnBeforeTax_opt := Some 0 \<rparr>)
   \<and> simulateScenario now (i\<lparr> afaModel_opt := None \<rparr>)
     = simulateScenario now (i\<lparr> afaModel_opt := Some ''Linear 2%'' \<rparr>)
   \<and> simulateScenario now (i\<lparr> saleMode_opt := None \<rparr>)
     = simulateScenario now (i\<lparr> saleMode_opt := Some ''hold'' \<rparr>)
   \<and> simulateScenario now (i\<lparr> startYear_opt := None \<rparr>)
     = simulateScenario now (i\<lparr> startYear_opt := Some now \<rparr>)
   \<and> simulateScenario now (i\<lparr> investmentHorizonYears_opt := None \<rparr>)
     = simulateScenario now (i\<lparr> investmentHorizonYears_opt := Some 30 \<rparr>)
   \<and> simulateScenario now (i\<lparr> buildingLifetimeYears_opt := None \<rparr>)
     = simulateScenario now (i\<lparr> buildingLifetimeYears_opt := Some 50 \<rparr>)
   \<and> simulateScenario now (i\<lparr> interestRate2_opt := None \<rparr>)
     = simulateScenario now (i\<lparr> interestRate2_opt := Some (dflt (interestRate1_opt i) 0) \<rparr>)
   \<and> simulateScenario now (i\<lparr> altTaxRate_opt := None \<rparr>)
     = simulateScenario now (i\<lparr> altTaxRate_opt := Some (dflt (incomeTaxRate_opt i) 0) \<rparr>)"
  by (simp only: simulateScenario_def unpack_absent_zero unpack_absent_other simp_thms)

section \<open>The loan schedule\<close>

subsection \<open>Phases\<close>

lemma withinLoan2_years:
  "withinLoan2 p y s \<Longrightarrow> n1 p < real y \<and> real y \<le> n1 p + n2 p \<and> remainingDebt_v s > 1 / 10 ^ 6"
  by (auto simp add: withinLoan2_def withinLoan1_def)

lemma phaseOf_Loan2: "phaseOf p y s = Loan2 \<longleftrightarrow> withinLoan2 p y s"
  by (auto simp add: phaseOf_def withinLoan2_def)

lemma loanStep_Repaid: "phaseOf p y s = Repaid \<Longrightarrow> loanStep p y s = (s, 0, 0, 0)"
  by (simp add: phaseOf_def loanStep_def split: if_splits)

lemma phase_step: "rank (phaseOf p y s) \<le> rank (phaseOf p (Suc y) (fst (yearBody p y s)))"
proof (cases "phaseOf p y s")
  case Loan1
  then show ?thesis by simp
next
  case Loan2
  then have "n1 p < real y"
    using withinLoan2_years by (simp add: phaseOf_Loan2)
  then have "\<not> withinLoan1 p (Suc y) (fst (yearBody p y s))"
    by (simp add: withinLoan1_def)
  then show ?thesis
    using Loan2 by (simp add: phaseOf_def)
next
  case Repaid
  let ?s' = "fst (yearBody p y s)"
  have d: "remainingDebt_v ?s' = (if saleFires p y s then 0 else remainingDebt_v s)"
    by (simp add: yearBody_debt loanStep_Repaid [OF Repaid])
  have n: "\<not> withinLoan1 p y s" "\<not> withinLoan2 p y s"
    using Repaid by (simp_all add: phaseOf_def split: if_splits)
  have "\<not> withinLoan1 p (Suc y) ?s'" "\<not> withinLoan2 p (Suc y) ?s'"
    using n d by (auto simp add: withinLoan1_def withinLoan2_def split: if_splits)
  then show ?thesis
    by (simp add: phaseOf_def)
qed

lemma phaseAt_step: "1 \<le> k \<Longrightarrow> rank (phaseAt p k) \<le> rank (phaseAt p (Suc k))"
  using phase_step [of p k "varsAfter p (k - 1)"]
  by (simp add: phaseAt_def varsAfter_pred)

lemma phaseAt_mono: "j \<le> k \<Longrightarrow> 1 \<le> j \<Longrightarrow> rank (phaseAt p j) \<le> rank (phaseAt p k)"
proof (induction k rule: dec_induct)
  case base
  show ?case by simp
next
  case (step m)
  then have "rank (phaseAt p m) \<le> rank (phaseAt p (Suc m))"
    by (intro phaseAt_step) simp
  with step show ?case by simp
qed

lemma small_debt_idle:
  assumes "remainingDebt_v s \<le> 1 / 10 ^ 6"
  shows "loanStep p y s = (s, 0, 0, 0)"
    and "remainingDebt_v (fst (yearBody p y s)) \<le> 1 / 10 ^ 6"
proof -
  have "\<not> withinLoan1 p y s" "\<not> withinLoan2 p y s"
    using assms by (simp_all add: withinLoan1_def withinLoan2_def)
  then show idle: "loanStep p y s = (s, 0, 0, 0)"
    by (simp add: loanStep_def)
  show "remainingDebt_v (fst (yearBody p y s)) \<le> 1 / 10 ^ 6"
    using assms by (simp add: yearBody_debt idle)
qed

lemma small_debt_stays:
  "j \<le> m \<Longrightarrow> debtAfter p j \<le> 1 / 10 ^ 6 \<Longrightarrow> debtAfter p m \<le> 1 / 10 ^ 6"
proof (induction m rule: dec_induct)
  case base
  then show ?case by simp
next
  case (step m)
  then have "remainingDebt_v (varsAfter p m) \<le> 1 / 10 ^ 6"
    by (simp add: debtAfter_vars)
  then have "remainingDebt_v (fst (yearBody p (Suc m) (varsAfter p m))) \<le> 1 / 10 ^ 6"
    by (rule small_debt_idle(2))
  then show ?case
    by (simp add: debtAfter_vars)
qed

lemma repaid_pays_nothing:
  assumes "j < k" "debtAfter p j \<le> 1 / 10 ^ 6"
  shows "interestPaid (recordOf p k) = 0 \<and> principalPaid (recordOf p k) = 0 \<and> paymentAt p k = 0"
proof -
  have "j \<le> k - 1"
    using assms(1) by simp
  then have "debtAfter p (k - 1) \<le> 1 / 10 ^ 6"
    using assms(2) by (rule small_debt_stays)
  then have idle: "loanStep p k (varsAfter p (k - 1)) = (varsAfter p (k - 1), 0, 0, 0)"
    unfolding debtAfter_vars by (rule small_debt_idle(1))
  show ?thesis
    unfolding recordOf_def yearBody_loan paymentAt_def idle by simp
qed

lemma loanStep_flag:
  "secondLoanStarted_v (fst (loanStep p y s)) = (secondLoanStarted_v s \<or> withinLoan2 p y s)"
proof (cases "withinLoan1 p y s")
  case True
  then have "\<not> withinLoan2 p y s" by (simp add: withinLoan2_def)
  with True show ?thesis by (simp add: loanStep_def Let_def)
next
  case False
  then show ?thesis by (cases "withinLoan2 p y s") (simp_all add: loanStep_def Let_def)
qed

lemma loanStep_annuity2:
  "annuity2_v (fst (loanStep p y s)) =
     (if withinLoan2 p y s \<and> \<not> secondLoanStarted_v s
      then pmt (r2 p) (n2 p) (remainingDebt_v s) else annuity2_v s)"
proof (cases "withinLoan1 p y s")
  case True
  then have "\<not> withinLoan2 p y s" by (simp add: withinLoan2_def)
  with True show ?thesis by (simp add: loanStep_def Let_def)
next
  case False
  then show ?thesis by (cases "withinLoan2 p y s") (simp_all add: loanStep_def Let_def)
qed

lemma loanStep_payment2:
  assumes "withinLoan2 p y s"
  shows "snd (snd (snd (loanStep p y s))) = annuity2_v (fst (loanStep p y s))"
proof -
  have "\<not> withinLoan1 p y s" using assms by (simp add: withinLoan2_def)
  with assms show ?thesis by (simp add: loanStep_def Let_def)
qed

lemma started_has_second_year:
  "secondLoanStarted_v (varsAfter p m) \<Longrightarrow> \<exists>j. 1 \<le> j \<and> j \<le> m \<and> phaseAt p j = Loan2"
proof (induction m)
  case 0
  then show ?case by (simp add: initVars_def)
next
  case (Suc m)
  then have "secondLoanStarted_v (varsAfter p m) \<or> withinLoan2 p (Suc m) (varsAfter p m)"
    by (simp add: yearBody_loan loanStep_flag)
  then show ?case
  proof
    assume "secondLoanStarted_v (varsAfter p m)"
    with Suc.IH obtain j where "1 \<le> j" "j \<le> m" "phaseAt p j = Loan2" by blast
    then show ?thesis by (intro exI [of _ j]) simp
  next
    assume "withinLoan2 p (Suc m) (varsAfter p m)"
    then have "phaseAt p (Suc m) = Loan2"
      by (simp add: phaseAt_def phaseOf_Loan2)
    then show ?thesis by (intro exI [of _ "Suc m"]) simp
  qed
qed

lemma annuity2_kept:
  "f \<le> m \<Longrightarrow> secondLoanStarted_v (varsAfter p f) \<Longrightarrow>
     secondLoanStarted_v (varsAfter p m) \<and> annuity2_v (varsAfter p m) = annuity2_v (varsAfter p f)"
proof (induction m rule: dec_induct)
  case base
  then show ?case by simp
next
  case (step m)
  then show ?case
    by (simp add: yearBody_loan loanStep_flag loanStep_annuity2)
qed

lemma annuity2_once:
  assumes f: "1 \<le> f" "f \<le> k" "phaseAt p f = Loan2"
    and first: "\<forall>j. 1 \<le> j \<and> j < f \<longrightarrow> phaseAt p j \<noteq> Loan2"
    and k: "phaseAt p k = Loan2"
  shows "paymentAt p k = pmt (r2 p) (n2 p) (debtAfter p (f - 1))"
proof -
  have wf: "withinLoan2 p f (varsAfter p (f - 1))" and wk: "withinLoan2 p k (varsAfter p (k - 1))"
    using f(3) k by (simp_all add: phaseAt_def phaseOf_Loan2)
  have fresh: "\<not> secondLoanStarted_v (varsAfter p (f - 1))"
  proof
    assume "secondLoanStarted_v (varsAfter p (f - 1))"
    then obtain j where "1 \<le> j" "j \<le> f - 1" "phaseAt p j = Loan2"
      using started_has_second_year by blast
    with first f(1) show False by auto
  qed
  have at_f: "annuity2_v (varsAfter p f) = pmt (r2 p) (n2 p) (debtAfter p (f - 1))"
    and st_f: "secondLoanStarted_v (varsAfter p f)"
    using f(1) wf fresh
    by (simp_all add: varsAfter_pred [of f] yearBody_loan loanStep_flag loanStep_annuity2
        debtAfter_vars)
  have "1 \<le> k" using f by simp
  then have "paymentAt p k = annuity2_v (varsAfter p k)"
    using wk by (simp add: paymentAt_def varsAfter_pred [of k] yearBody_loan loanStep_payment2)
  also have "\<dots> = annuity2_v (varsAfter p f)"
    using annuity2_kept [OF f(2) st_f] by simp
  finally show ?thesis
    by (simp add: at_f)
qed

lemma twoPhase_run:
  "map (phaseAt (unpack 2025 twoPhaseInputs)) [1, 2, 3, 4] = [Loan1, Loan2, Loan2, Repaid]"
  "map (debtAfter (unpack 2025 twoPhaseInputs)) [0, 1, 2, 3, 4] = [600, 200, 100, 0, 0]"
  "map (paymentAt (unpack 2025 twoPhaseInputs)) [1, 2, 3, 4] = [400, 100, 100, 0]"
  by code_simp+

text \<open>
  C5. The loan schedule runs through the phases \<open>Loan1\<close>, \<open>Loan2\<close>, \<open>Repaid\<close> in this
  order and never back. For the years \<open>k\<close> of a run (\<^term>\<open>recordOf p k\<close> is the record of
  year \<open>k\<close>, see \<open>ledger_map\<close>):
  \<^item> the second loan is active in year \<open>k\<close> only if \<open>k\<close> is after the first term and within the
    two terms, and the debt of the year before is above \<open>1e-6\<close>;
  \<^item> the phase of a later year is never an earlier phase;
  \<^item> once the debt is at most \<open>1e-6\<close>, interest, principal and payment are 0 in all later
    years (with or without a sale);
  \<^item> the payment of every year of the second loan is the annuity computed in the first of them,
    from the debt at that time, \<^verbatim>\<open>r2\<close> and \<^verbatim>\<open>n2\<close>.
\<close>

theorem loan_phases:
  "(phaseAt p k = Loan2 \<longrightarrow>
      n1 p < real k \<and> real k \<le> n1 p + n2 p \<and> debtAfter p (k - 1) > 1 / 10 ^ 6)
   \<and> (1 \<le> j \<and> j \<le> k \<longrightarrow> rank (phaseAt p j) \<le> rank (phaseAt p k))
   \<and> (j < k \<and> debtAfter p j \<le> 1 / 10 ^ 6 \<longrightarrow>
        interestPaid (recordOf p k) = 0 \<and> principalPaid (recordOf p k) = 0
        \<and> paymentAt p k = 0 \<and> phaseAt p k = Repaid)
   \<and> (1 \<le> f \<and> f \<le> k \<and> phaseAt p f = Loan2 \<and> phaseAt p k = Loan2
        \<and> (\<forall>j. 1 \<le> j \<and> j < f \<longrightarrow> phaseAt p j \<noteq> Loan2) \<longrightarrow>
        paymentAt p k = pmt (r2 p) (n2 p) (debtAfter p (f - 1)))"
proof (intro conjI impI)
  assume "phaseAt p k = Loan2"
  then have "withinLoan2 p k (varsAfter p (k - 1))"
    by (simp add: phaseAt_def phaseOf_Loan2)
  from withinLoan2_years [OF this]
  show "n1 p < real k" "real k \<le> n1 p + n2 p" "debtAfter p (k - 1) > 1 / 10 ^ 6"
    by (simp_all add: debtAfter_vars)
next
  assume "1 \<le> j \<and> j \<le> k"
  then show "rank (phaseAt p j) \<le> rank (phaseAt p k)"
    by (simp add: phaseAt_mono)
next
  assume a: "j < k \<and> debtAfter p j \<le> 1 / 10 ^ 6"
  then show "interestPaid (recordOf p k) = 0" "principalPaid (recordOf p k) = 0"
    "paymentAt p k = 0"
    using repaid_pays_nothing [of j k p] by simp_all
  from a have "j \<le> k - 1" and "debtAfter p j \<le> 1 / 10 ^ 6"
    by auto
  then have "debtAfter p (k - 1) \<le> 1 / 10 ^ 6"
    by (rule small_debt_stays)
  then have "\<not> withinLoan1 p k (varsAfter p (k - 1))" "\<not> withinLoan2 p k (varsAfter p (k - 1))"
    by (simp_all add: withinLoan1_def withinLoan2_def debtAfter_vars)
  then show "phaseAt p k = Repaid"
    by (simp add: phaseAt_def phaseOf_def)
next
  assume "1 \<le> f \<and> f \<le> k \<and> phaseAt p f = Loan2 \<and> phaseAt p k = Loan2
        \<and> (\<forall>j. 1 \<le> j \<and> j < f \<longrightarrow> phaseAt p j \<noteq> Loan2)"
  then show "paymentAt p k = pmt (r2 p) (n2 p) (debtAfter p (f - 1))"
    by (intro annuity2_once) simp_all
qed

theorem loan_phases_witness:
  "phaseAt (unpack 2025 twoPhaseInputs) 3 = Loan2
   \<and> n1 (unpack 2025 twoPhaseInputs) < 3
   \<and> 3 \<le> n1 (unpack 2025 twoPhaseInputs) + n2 (unpack 2025 twoPhaseInputs)
   \<and> debtAfter (unpack 2025 twoPhaseInputs) 2 > 1 / 10 ^ 6
   \<and> rank (phaseAt (unpack 2025 twoPhaseInputs) 2) \<le> rank (phaseAt (unpack 2025 twoPhaseInputs) 3)
   \<and> debtAfter (unpack 2025 twoPhaseInputs) 3 \<le> 1 / 10 ^ 6
   \<and> interestPaid (recordOf (unpack 2025 twoPhaseInputs) 4) = 0
   \<and> principalPaid (recordOf (unpack 2025 twoPhaseInputs) 4) = 0
   \<and> paymentAt (unpack 2025 twoPhaseInputs) 4 = 0
   \<and> phaseAt (unpack 2025 twoPhaseInputs) 4 = Repaid
   \<and> phaseAt (unpack 2025 twoPhaseInputs) 2 = Loan2
   \<and> paymentAt (unpack 2025 twoPhaseInputs) 3
       = pmt (r2 (unpack 2025 twoPhaseInputs)) (n2 (unpack 2025 twoPhaseInputs))
           (debtAfter (unpack 2025 twoPhaseInputs) 1)"
proof -
  let ?p = "unpack 2025 twoPhaseInputs"
  have ph: "phaseAt ?p 1 = Loan1" "phaseAt ?p 2 = Loan2" "phaseAt ?p 3 = Loan2"
    using twoPhase_run(1) by simp_all
  have d3: "debtAfter ?p 3 \<le> 1 / 10 ^ 6"
    using twoPhase_run(2) by simp
  have first: "\<forall>j. 1 \<le> j \<and> j < 2 \<longrightarrow> phaseAt ?p j \<noteq> Loan2"
  proof (intro allI impI)
    fix j :: nat
    assume "1 \<le> j \<and> j < 2"
    then have "j = 1" by simp
    then show "phaseAt ?p j \<noteq> Loan2" using ph(1) by simp
  qed
  show ?thesis
    using loan_phases [of ?p 3 2 2] loan_phases [of ?p 4 3 1] ph d3 first
    by simp
qed

subsection \<open>Amortization of the first loan\<close>










subsection \<open>Remaining debt\<close>

text \<open>
  C10. When the first loan \<^verbatim>\<open>loanAmount1\<close> is not negative, no record of the ledger has a
  negative \<^verbatim>\<open>remainingDebt\<close>: a loan year clamps the new balance at 0, a year without loan
  payment keeps it, and the sale sets it to 0.
\<close>

theorem debt_never_negative:
  assumes "0 \<le> loanAmount1 (unpack now i)"
  shows "\<exists>r. simulateScenario now i = Inr r \<and> (\<forall>y \<in> set (years r). 0 \<le> remainingDebt y)"
proof -
  let ?p = "unpack now i"
  have "0 \<le> remainingDebt (recordOf ?p k)" if "1 \<le> k" for k
    using that assms by (simp add: recordOf_debt varsAfter_debt_nonneg)
  then show ?thesis
    unfolding simulateScenario_def simulateUnpacked_Inr by (auto simp del: upt_Suc)
qed

theorem debt_never_negative_witness:
  "0 \<le> loanAmount1 (unpack 2025 taxedSaleInputs)
   \<and> (\<exists>r. simulateScenario 2025 taxedSaleInputs = Inr r
        \<and> length (years r) = 1 \<and> 0 \<le> remainingDebt (years r ! 0))"
proof -
  have h: "0 \<le> loanAmount1 (unpack 2025 taxedSaleInputs)"
    by (simp add: loanAmount1_def payoutFactor_def financingNeed_def totalInvestment_def
        sideCostsTotal_def sideCostsVariable_def sideCostRate_def purchasePrice_def js_or_def
        unpack_def taxedSaleInputs_def noInputs_def dflt_def)
  have n: "numYears (unpack 2025 taxedSaleInputs) = 1"
    by (simp add: numYears_def horizonYears_def js_or_def unpack_def taxedSaleInputs_def
        noInputs_def dflt_def)
  from debt_never_negative [OF h] obtain r
    where r: "simulateScenario 2025 taxedSaleInputs = Inr r"
      and nn: "\<forall>y \<in> set (years r). 0 \<le> remainingDebt y"
    by blast
  have len: "length (years r) = 1"
    using r n unfolding simulateScenario_def simulateUnpacked_Inr by auto
  then have "years r ! 0 \<in> set (years r)"
    by simp
  with nn have "0 \<le> remainingDebt (years r ! 0)"
    by blast
  with h r len show ?thesis
    by blast
qed

section \<open>The scenario of the specification\<close>

lemma scenario_fields:
  "buildingValue (unpack now scenarioInputs) = 200000"
  "landValue (unpack now scenarioInputs) = 80000"
  "grEStRate (unpack now scenarioInputs) = 0.05"
  "maklerRate (unpack now scenarioInputs) = 0.03"
  "grundbuchRate (unpack now scenarioInputs) = 0.005"
  "notaryRate (unpack now scenarioInputs) = 0.015"
  "companyCost (unpack now scenarioInputs) = 0"
  "fittingUp (unpack now scenarioInputs) = 30000"
  "initialRepairs (unpack now scenarioInputs) = 5000"
  "equity (unpack now scenarioInputs) = 80000"
  "discountRate (unpack now scenarioInputs) = 0"
  "monthlyRent (unpack now scenarioInputs) = 1200"
  "vacancyRate (unpack now scenarioInputs) = 0.05"
  "rentGrowth (unpack now scenarioInputs) = 0.01"
  by (simp_all add: unpack_def scenarioInputs_def noInputs_def dflt_def)

text \<open>
  C7. On the scenario of the specification the engine derives a purchase price of 280000, a
  side-cost rate of 0.1, variable side costs of 28000, a total investment of 343000, a
  financing need and a first loan of 263000, and in year 1 a gross rent of 14400 and a net
  rent of 13680.
\<close>

theorem scenario_acquisition:
  "purchasePrice (unpack now scenarioInputs) = 280000
   \<and> sideCostRate (unpack now scenarioInputs) = 0.1
   \<and> sideCostsVariable (unpack now scenarioInputs) = 28000
   \<and> (\<exists>r. simulateScenario now scenarioInputs = Inr r
        \<and> meta_totalInvestment (meta r) = 343000
        \<and> meta_financingNeed (meta r) = 263000
        \<and> meta_loanAmount1 (meta r) = 263000
        \<and> yearIndex (hd (years r)) = 1
        \<and> grossRent (hd (years r)) = 14400
        \<and> netRent (hd (years r)) = 13680)"
proof -
  let ?p = "unpack now scenarioInputs"
  have pp: "purchasePrice ?p = 280000"
    by (simp add: purchasePrice_def scenario_fields)
  have scr: "sideCostRate ?p = 0.1"
    by (simp add: sideCostRate_def js_or_def scenario_fields)
  have scv: "sideCostsVariable ?p = 28000"
    by (simp add: sideCostsVariable_def pp scr)
  have ti: "totalInvestment ?p = 343000"
    by (simp add: totalInvestment_def sideCostsTotal_def js_or_def pp scv scenario_fields)
  have fn: "financingNeed ?p = 263000"
    by (simp add: financingNeed_def ti scenario_fields)
  have la: "loanAmount1 ?p = 263000"
    by (simp add: loanAmount1_def payoutFactor_def js_or_def fn scenario_fields)
  have hd1: "hd (map (recordOf ?p) [1 ..< Suc (numYears ?p)]) = recordOf ?p 1"
    using numYears_pos [of ?p] by (subst upt_rec) simp
  have yi: "yearIndex (recordOf ?p 1) = 1"
    by (simp add: recordOf_def yearBody_def Let_def case_prod_beta)
  have gr: "grossRent (recordOf ?p 1) = 14400"
    by (simp add: recordOf_def yearBody_rent Math_pow_def scenario_fields)
  have nr: "netRent (recordOf ?p 1) = 13680"
    using gr by (simp add: recordOf_def yearBody_rent(2) scenario_fields)
  show ?thesis
    unfolding simulateScenario_def simulateUnpacked_Inr
    using hd1 yi gr nr by (simp add: pp scr scv ti fn la metaOf_def del: upt_Suc)
qed

section \<open>Totality and guards\<close>

text \<open>
  C8, as claimed: the engine never throws, each division is guarded, and among the guards
  ROE, annualized ROE and equity multiple are 0 when \<open>equity \<le> 0\<close> or \<open>yearsUsed \<le> 0\<close>. The
  guard on \<^verbatim>\<open>yearsUsed\<close> (line 352) is that of the annualized ROE only: with an equity of
  100 and \<^verbatim>\<open>yearsUsed = 0\<close> the ROE is 1 and the equity multiple 2. And the division of
  \<^verbatim>\<open>pmt\<close> for a rate of at least \<open>1e-9\<close> has no guard: at a rate of -2 over 2 periods its
  denominator \<open>1 - (1 + rate)\<^sup>-\<^sup>2\<close> is 0 (JavaScript then yields an infinite annuity, and
  does not throw).
\<close>

theorem guards_counterexample:
  "equity (unpack 2025 zeroYearsInputs) = 100
   \<and> yearsUsed (unpack 2025 zeroYearsInputs) = 0
   \<and> map_sum id (roeTotal \<circ> kpis) (simulateScenario 2025 zeroYearsInputs) = Inr 1
   \<and> map_sum id (roeAnnualized \<circ> kpis) (simulateScenario 2025 zeroYearsInputs) = Inr 0
   \<and> map_sum id (equityMultiple \<circ> kpis) (simulateScenario 2025 zeroYearsInputs) = Inr 2
   \<and> \<not> \<bar>- 2 :: real\<bar> < 1 / 10 ^ 9
   \<and> 1 - Math_pow (1 + (- 2)) (- 2) = 0"
  by code_simp

text \<open>
  C8, amended. On every inputs object the engine returns a result (the loop terminates with
  at least one record, so \<^verbatim>\<open>last\<close> is defined), and these guards hold: a horizon of 0 or
  less is floored to 1, so that the ledger has exactly one record; ROE, annualized ROE and
  equity multiple are 0 when \<open>equity \<le> 0\<close>, and the annualized ROE is 0 when
  \<open>yearsUsed \<le> 0\<close>; \<^verbatim>\<open>loanAmount1\<close> is \<^verbatim>\<open>financingNeed\<close> when \<open>\<bar>payoutFactor\<bar> < 1e-9\<close>;
  \<^verbatim>\<open>buildingShare\<close> is 0 when the purchase price is 0; the first annuity is 0 when the
  first term is 0; and \<^verbatim>\<open>pmt\<close> with \<open>\<bar>rate\<bar> < 1e-9\<close> is the straight line \<^verbatim>\<open>pv / nper\<close>,
  or 0 when \<^verbatim>\<open>nper\<close> is not positive.
\<close>

theorem engine_total:
  "\<exists>r. simulateScenario now i = Inr r
     \<and> (investmentHorizonYears (unpack now i) \<le> 0 \<longrightarrow> length (years r) = 1)
     \<and> (equity (unpack now i) \<le> 0 \<longrightarrow>
          roeTotal (kpis r) = 0 \<and> roeAnnualized (kpis r) = 0 \<and> equityMultiple (kpis r) = 0)
     \<and> (yearsUsed (unpack now i) \<le> 0 \<longrightarrow> roeAnnualized (kpis r) = 0)
     \<and> (\<bar>payoutFactor (unpack now i)\<bar> < 1 / 10 ^ 9 \<longrightarrow>
          meta_loanAmount1 (meta r) = meta_financingNeed (meta r))
     \<and> (purchasePrice (unpack now i) = 0 \<longrightarrow> buildingShare (unpack now i) = 0)
     \<and> (loanTermYears1 (unpack now i) = 0 \<longrightarrow> annuity1 (unpack now i) = 0)
     \<and> (\<bar>rate\<bar> < 1 / 10 ^ 9 \<longrightarrow> pmt rate nper pv = (if nper > 0 then pv / nper else 0))"
proof -
  let ?p = "unpack now i"
  have one: "numYears ?p = 1" if "investmentHorizonYears ?p \<le> 0"
  proof -
    have "horizonYears ?p = 1"
      using that by (simp add: horizonYears_def js_or_def max_def)
    then show ?thesis by (simp add: numYears_def)
  qed
  show ?thesis
    unfolding simulateScenario_def simulateUnpacked_Inr
    using one
    by (simp add: kpisOf_fields metaOf_def loanAmount1_def buildingShare_def annuity1_def
        term_rate_names pmt_def del: upt_Suc)
qed

theorem engine_total_witness:
  "investmentHorizonYears (unpack 2025 guardedInputs) = - 3
   \<and> equity (unpack 2025 guardedInputs) = 0
   \<and> yearsUsed (unpack 2025 guardedInputs) = - 1
   \<and> payoutFactor (unpack 2025 guardedInputs) = 0
   \<and> purchasePrice (unpack 2025 guardedInputs) = 0
   \<and> loanTermYears1 (unpack 2025 guardedInputs) = 0
   \<and> (\<exists>r. simulateScenario 2025 guardedInputs = Inr r
        \<and> length (years r) = 1
        \<and> roeTotal (kpis r) = 0 \<and> roeAnnualized (kpis r) = 0 \<and> equityMultiple (kpis r) = 0
        \<and> meta_loanAmount1 (meta r) = meta_financingNeed (meta r))
   \<and> buildingShare (unpack 2025 guardedInputs) = 0
   \<and> annuity1 (unpack 2025 guardedInputs) = 0
   \<and> pmt 0 5 1000 = 200"
proof -
  let ?p = "unpack 2025 guardedInputs"
  have f: "investmentHorizonYears ?p = - 3" "equity ?p = 0" "yearsUsed ?p = - 1"
    "payoutFactor ?p = 0" "purchasePrice ?p = 0" "loanTermYears1 ?p = 0"
    by (simp_all add: yearsUsed_def horizonYears_def payoutFactor_def purchasePrice_def
        js_or_def unpack_def guardedInputs_def noInputs_def dflt_def)
  show ?thesis
    using engine_total [of 2025 guardedInputs 0 5 1000]
    by (auto simp add: f)
qed

section \<open>Determinism\<close>

text \<open>
  C9. When \<^verbatim>\<open>startYear\<close> is supplied, the result does not depend on the clock: two calls
  on the same inputs return the same result, whatever the current year is at each call.
\<close>

theorem deterministic_given_startYear:
  "startYear_opt i \<noteq> None \<Longrightarrow> simulateScenario now i = simulateScenario now' i"
  by (auto simp add: simulateScenario_def unpack_def dflt_def)

theorem deterministic_given_startYear_witness:
  "startYear_opt soldInputs \<noteq> None
   \<and> simulateScenario 1999 soldInputs = simulateScenario 2031 soldInputs"
proof -
  have h: "startYear_opt soldInputs \<noteq> None"
    by (simp add: soldInputs_def noInputs_def)
  show ?thesis
    using h deterministic_given_startYear [OF h, of 1999 2031] by simp
qed

end
